theory Spec2Isabelle
  imports Complex_Main "HOL-Library.Word"
begin

unbundle bit_operations_syntax

section \<open>Shared libsigrok vocabulary\<close>

text \<open>
  The drivers return an \<open>int\<close> status drawn from \<open>enum sr_error_code\<close>. The codes that
  the two drivers name are constructors; \<open>SR_ERR_CODE\<close> stands for any other code that a
  helper outside these files hands back and that the driver passes through unchanged.
\<close>

datatype sr_error_code =
    SR_OK
  | SR_ERR
  | SR_ERR_ARG
  | SR_ERR_BUG
  | SR_ERR_NA
  | SR_ERR_DATA
  | SR_ERR_IO
  | SR_ERR_CODE int

text \<open>The configuration keys that the two drivers switch on; every other key is \<open>SR_CONF_KEY\<close>.\<close>

datatype sr_configkey =
    SR_CONF_CONN
  | SR_CONF_SAMPLERATE
  | SR_CONF_LIMIT_MSEC
  | SR_CONF_LIMIT_SAMPLES
  | SR_CONF_CAPTURE_RATIO
  | SR_CONF_MEASURED_QUANTITY
  | SR_CONF_RANGE
  | SR_CONF_ADC_POWERLINE_CYCLES
  | SR_CONF_AVERAGING
  | SR_CONF_AVG_SAMPLES
  | SR_CONF_KEY nat

text \<open>
  Modelled from the spec: the macro \<open>SR_MHZ\<close> of libsigrok.h is not part of the sources at
  hand; the spec speaks of rates of 50, 100 and 200 MHz, a rate being a 64-bit count of
  Hertz.
\<close>

definition SR_MHZ :: "64 word \<Rightarrow> 64 word" where
  "SR_MHZ n = n * 1000000"


section \<open>asix-sigma: the register-protocol driver\<close>

subsection \<open>Device context\<close>

text \<open>
  \<open>devc->state.state\<close>. The enumeration is declared in the driver's protocol.h; api.c
  names three of its members, every other member is \<open>SIGMA_STATE n\<close>.
\<close>

datatype sigma_state =
    SIGMA_IDLE
  | SIGMA_CAPTURE
  | SIGMA_STOPPING
  | SIGMA_STATE nat

text \<open>\<open>devc->trigger\<close>: one bit per channel, sixteen channels (\<open>channel_names\<close>).\<close>

record sigma_trigger =
  risingmask :: "16 word"
  fallingmask :: "16 word"

record sigma_dev_context =
  samplerate :: "64 word"
  capture_ratio :: "64 word"
  trigger :: sigma_trigger
  state :: sigma_state

text \<open>
  The device instance: the driver's private context and the event sources that the
  session holds for it, by key.
\<close>

record sigma_dev_inst =
  priv :: sigma_dev_context
  session_sources :: "int list"

text \<open>
  Modelled from the spec: \<open>sr_session_source_add\<close> of session.c, which is not part of the
  sources at hand, after the Event Dispatcher's \<open>register_source\<close>: the key joins the
  session's sources.
\<close>

definition sr_session_source_add :: "int \<Rightarrow> int list \<Rightarrow> int list" where
  "sr_session_source_add key srcs = key # srcs"

text \<open>
  Modelled from the spec: \<open>sr_session_source_remove\<close> of session.c, which is not part of
  the sources at hand, after the Event Dispatcher's \<open>deregister_source(handle)\<close>: every
  entry of the key leaves the session's sources.
\<close>

definition sr_session_source_remove :: "int \<Rightarrow> int list \<Rightarrow> int list" where
  "sr_session_source_remove key srcs = removeAll key srcs"

text \<open>The receive routine \<open>sigma_receive_data\<close> is registered under the key \<open>-1\<close>.\<close>

definition receive_registered :: "sigma_dev_inst \<Rightarrow> bool" where
  "receive_registered sdi \<longleftrightarrow> (-1) \<in> set (session_sources sdi)"

subsection \<open>Constants and helpers of protocol.h and protocol.c\<close>

text \<open>
  The bit numbers and mode bits below are macros of the driver's protocol.h, and the
  compile-time switch \<open>ASIX_SIGMA_WITH_TRIGGER\<close> is set there; they are parameters of
  the model.
\<close>

record sigma_consts =
  LEDSEL0 :: nat
  LEDSEL1 :: nat
  WMR_TRGRES :: "8 word"
  WMR_SDRAMWRITEEN :: "8 word"
  WMR_TRGEN :: "8 word"
  ASIX_SIGMA_WITH_TRIGGER :: bool

text \<open>
  The routines of protocol.c and of the software-limits module that api.c calls and whose
  result it acts on. Each takes the device context and returns a status with the context as
  it leaves it.
\<close>

record sigma_env =
  sigma_set_samplerate :: "sigma_dev_context \<Rightarrow> sr_error_code \<times> sigma_dev_context"
  sigma_set_acquire_timeout :: "sigma_dev_context \<Rightarrow> sr_error_code \<times> sigma_dev_context"
  sigma_convert_trigger :: "sigma_dev_context \<Rightarrow> sr_error_code \<times> sigma_dev_context"
  sigma_normalize_samplerate :: "64 word \<Rightarrow> sr_error_code \<times> 64 word"
  sr_sw_limits_config_set ::
    "sr_configkey \<Rightarrow> 64 word \<Rightarrow> sigma_dev_context \<Rightarrow> sr_error_code \<times> sigma_dev_context"

subsection \<open>What the driver sends\<close>

datatype sigma_register =
    WRITE_TRIGGER_SELECT2
  | WRITE_TRIGGER_OPTION
  | WRITE_CLOCK_SELECT
  | WRITE_POST_TRIGGER
  | WRITE_MODE

text \<open>
  \<open>struct triggerinout\<close> is cleared and two of its members are set; the image goes to
  the device as it lies in memory.
\<close>

record triggerinout =
  trgout_bytrigger :: nat
  trgout_enable :: nat

datatype sigma_action =
    Set_register sigma_register "8 word"
  | Write_register sigma_register "8 word list"
  | Write_triggerinout sigma_register triggerinout
  | Write_trigger_lut sigma_trigger
  | Send_df_header

subsection \<open>config_set\<close>

text \<open>
  All keys that this driver sets carry a 64-bit unsigned value. The capture-ratio case is
  compiled in only with \<open>ASIX_SIGMA_WITH_TRIGGER\<close>.
\<close>

definition sigma_config_set ::
  "sigma_consts \<Rightarrow> sigma_env \<Rightarrow> sr_configkey \<Rightarrow> 64 word \<Rightarrow> sigma_dev_context
     \<Rightarrow> sr_error_code \<times> sigma_dev_context" where
  "sigma_config_set hw env key data devc =
    (case key of
       SR_CONF_SAMPLERATE \<Rightarrow>
         (case sigma_normalize_samplerate env data of
            (ret, have_rate) \<Rightarrow>
              if ret \<noteq> SR_OK then (ret, devc)
              else (SR_OK, devc\<lparr>samplerate := have_rate\<rparr>))
     | SR_CONF_LIMIT_MSEC \<Rightarrow> sr_sw_limits_config_set env key data devc
     | SR_CONF_LIMIT_SAMPLES \<Rightarrow> sr_sw_limits_config_set env key data devc
     | SR_CONF_CAPTURE_RATIO \<Rightarrow>
         if ASIX_SIGMA_WITH_TRIGGER hw
         then (SR_OK, devc\<lparr>capture_ratio := data\<rparr>)
         else (SR_ERR_NA, devc)
     | _ \<Rightarrow> (SR_ERR_NA, devc))"

subsection \<open>dev_acquisition_start\<close>

text \<open>
  The scan for the trigger pin: \<open>for (triggerpin = 0; triggerpin < 8; triggerpin++)\<close>,
  left at the first pin whose bit is set in the mask.
\<close>

function find_triggerpin :: "16 word \<Rightarrow> nat \<Rightarrow> nat" where
  "find_triggerpin masks triggerpin =
     (if triggerpin < 8
      then (if masks AND push_bit triggerpin 1 \<noteq> 0 then triggerpin
            else find_triggerpin masks (triggerpin + 1))
      else triggerpin)"
  by pat_completeness auto
termination
  by (relation "measure (\<lambda>(masks, triggerpin). 8 - triggerpin)") auto

declare find_triggerpin.simps [simp del]

text \<open>
  The trigger-select byte. Above 50 MHz and below 100 MHz neither branch is taken and the
  byte stays 0.
\<close>

definition triggerselect_of :: "sigma_consts \<Rightarrow> sigma_dev_context \<Rightarrow> 8 word" where
  "triggerselect_of hw devc =
     (if samplerate devc \<ge> SR_MHZ 100 then
        (let triggerpin =
               find_triggerpin (risingmask (trigger devc) OR fallingmask (trigger devc)) 0;
             triggerselect = push_bit (LEDSEL1 hw) 1 OR (word_of_nat triggerpin AND 7)
         in if fallingmask (trigger devc) \<noteq> 0
            then triggerselect OR push_bit 3 1
            else triggerselect)
      else if samplerate devc \<le> SR_MHZ 50 then
        push_bit (LEDSEL1 hw) 1 OR push_bit (LEDSEL0 hw) 1
      else 0)"

text \<open>The register writes of the trigger set-up, in the order of the source.\<close>

definition trigger_actions :: "sigma_consts \<Rightarrow> sigma_dev_context \<Rightarrow> sigma_action list" where
  "trigger_actions hw devc =
     [Set_register WRITE_TRIGGER_SELECT2 0x20]
     @ (if samplerate devc \<ge> SR_MHZ 100 then [Set_register WRITE_TRIGGER_SELECT2 0x81]
        else if samplerate devc \<le> SR_MHZ 50 then [Write_trigger_lut (trigger devc)]
        else [])
     @ [Write_triggerinout WRITE_TRIGGER_OPTION
          \<lparr>trgout_bytrigger = 1, trgout_enable = 1\<rparr>,
        Set_register WRITE_TRIGGER_SELECT2 (triggerselect_of hw devc)]"

text \<open>
  \<open>struct clockselect_50\<close>. The division in the last branch has no result for a rate of
  0: there the computation yields \<open>None\<close>.
\<close>

record clockselect_50 =
  async :: "8 word"
  fraction :: "8 word"
  disabled_channels :: "16 word"

definition clockselect_of :: "64 word \<Rightarrow> clockselect_50 option" where
  "clockselect_of rate =
     (if rate = SR_MHZ 200 then
        Some \<lparr>async = 0, fraction = 1 - 1, disabled_channels = 0xf0ff\<rparr>
      else if rate = SR_MHZ 100 then
        Some \<lparr>async = 0, fraction = 1 - 1, disabled_channels = 0x00ff\<rparr>
      else if rate = 0 then None
      else
        Some \<lparr>async = 0, fraction = ucast (SR_MHZ 50 div rate - 1),
              disabled_channels = 0x0000\<rparr>)"

definition clock_bytes_of :: "clockselect_50 \<Rightarrow> 8 word list" where
  "clock_bytes_of clockselect =
     [async clockselect,
      fraction clockselect,
      ucast (disabled_channels clockselect AND 0xff),
      ucast (drop_bit 8 (disabled_channels clockselect))]"

text \<open>
  The value for the post-trigger register: a 64-bit product and quotient, cut to the
  register's eight bits.
\<close>

definition post_trigger_of :: "64 word \<Rightarrow> 8 word" where
  "post_trigger_of ratio = ucast ((ratio * 255) div 100)"

definition mode_regval :: "sigma_consts \<Rightarrow> 8 word" where
  "mode_regval hw =
     (let regval = WMR_TRGRES hw OR WMR_SDRAMWRITEEN hw
      in if ASIX_SIGMA_WITH_TRIGGER hw then regval OR WMR_TRGEN hw else regval)"

text \<open>
  The whole of \<open>dev_acquisition_start\<close>: the status, the device instance as it is left,
  and what went to the device and to the session, in order. \<open>None\<close> is the division by a
  sample rate of 0.
\<close>

definition sigma_dev_acquisition_start ::
  "sigma_consts \<Rightarrow> sigma_env \<Rightarrow> sigma_dev_inst
     \<Rightarrow> (sr_error_code \<times> sigma_dev_inst \<times> sigma_action list) option" where
  "sigma_dev_acquisition_start hw env sdi =
     (case sigma_set_samplerate env (priv sdi) of (ret1, devc1) \<Rightarrow>
        if ret1 \<noteq> SR_OK then Some (ret1, sdi\<lparr>priv := devc1\<rparr>, [])
        else
      (case sigma_set_acquire_timeout env devc1 of (ret2, devc2) \<Rightarrow>
        if ret2 \<noteq> SR_OK then Some (ret2, sdi\<lparr>priv := devc2\<rparr>, [])
        else
      (case sigma_convert_trigger env devc2 of (ret3, devc) \<Rightarrow>
        if ret3 \<noteq> SR_OK then Some (SR_ERR, sdi\<lparr>priv := devc\<rparr>, [])
        else
      (case clockselect_of (samplerate devc) of
         None \<Rightarrow> None
       | Some clockselect \<Rightarrow>
           Some (SR_OK,
                 sdi\<lparr>priv := devc\<lparr>state := SIGMA_CAPTURE\<rparr>,
                     session_sources := sr_session_source_add (-1) (session_sources sdi)\<rparr>,
                 trigger_actions hw devc
                 @ [Write_register WRITE_CLOCK_SELECT (clock_bytes_of clockselect),
                    Set_register WRITE_POST_TRIGGER (post_trigger_of (capture_ratio devc)),
                    Set_register WRITE_MODE (mode_regval hw),
                    Send_df_header])))))"

subsection \<open>dev_acquisition_stop\<close>

definition sigma_dev_acquisition_stop :: "sigma_dev_inst \<Rightarrow> sr_error_code \<times> sigma_dev_inst" where
  "sigma_dev_acquisition_stop sdi =
     (if state (priv sdi) = SIGMA_CAPTURE
      then (SR_OK, sdi\<lparr>priv := (priv sdi)\<lparr>state := SIGMA_STOPPING\<rparr>\<rparr>)
      else (SR_OK, sdi\<lparr>priv := (priv sdi)\<lparr>state := SIGMA_IDLE\<rparr>,
                      session_sources := sr_session_source_remove (-1) (session_sources sdi)\<rparr>))"


text \<open>
  The notions that the properties of the register-protocol driver speak of: channel \<open>k\<close>
  is the lowest set bit of a trigger mask, and the number of channels that a disable mask
  leaves enabled.
\<close>

definition lowest_set_bit :: "16 word \<Rightarrow> nat \<Rightarrow> bool" where
  "lowest_set_bit m k \<longleftrightarrow> bit m k \<and> (\<forall>j<k. \<not> bit m j)"

definition enabled_channel_count :: "16 word \<Rightarrow> nat" where
  "enabled_channel_count m = length (filter (\<lambda>i. \<not> bit m i) [0..<16])"

text \<open>
  What a sequence of actions sets a register to, in order; the images it writes to a
  register, in order; the disable mask that a clock-select image carries in its third and
  fourth byte; and the status of a start together with the values it sets a register to.
\<close>

fun set_register_values :: "sigma_register \<Rightarrow> sigma_action list \<Rightarrow> 8 word list" where
  "set_register_values r [] = []"
| "set_register_values r (Set_register r' v # acts) =
     (if r' = r then v # set_register_values r acts else set_register_values r acts)"
| "set_register_values r (_ # acts) = set_register_values r acts"

fun write_register_images :: "sigma_register \<Rightarrow> sigma_action list \<Rightarrow> 8 word list list" where
  "write_register_images r [] = []"
| "write_register_images r (Write_register r' bytes # acts) =
     (if r' = r then bytes # write_register_images r acts else write_register_images r acts)"
| "write_register_images r (_ # acts) = write_register_images r acts"

definition disable_mask_of_image :: "8 word list \<Rightarrow> 16 word" where
  "disable_mask_of_image bytes = ucast (bytes ! 2) OR push_bit 8 (ucast (bytes ! 3))"

definition sigma_start_set_values ::
  "sigma_consts \<Rightarrow> sigma_env \<Rightarrow> sigma_dev_inst \<Rightarrow> sigma_register
     \<Rightarrow> (sr_error_code \<times> 8 word list) option" where
  "sigma_start_set_values hw env sdi r =
     (case sigma_dev_acquisition_start hw env sdi of
        None \<Rightarrow> None
      | Some (ret, sdi', acts) \<Rightarrow> Some (ret, set_register_values r acts))"

subsection \<open>The configure path to config_set\<close>

text \<open>
  The keys of \<open>devopts\<close> in api.c that carry \<open>SR_CONF_SET\<close>; the capture ratio is among
  them only with \<open>ASIX_SIGMA_WITH_TRIGGER\<close>.
\<close>

definition sigma_devopts_set :: "sigma_consts \<Rightarrow> sr_configkey list" where
  "sigma_devopts_set hw =
     [SR_CONF_LIMIT_MSEC, SR_CONF_LIMIT_SAMPLES, SR_CONF_SAMPLERATE]
     @ (if ASIX_SIGMA_WITH_TRIGGER hw then [SR_CONF_CAPTURE_RATIO] else [])"

text \<open>
  Modelled from the spec: the configure operation of the driver lifecycle, through which
  alone the driver's static \<open>config_set\<close> is reached; it belongs to the framework
  (hwdriver.c), which is not part of the sources at hand. The spec, section 4.5:
  "configure(key, value): validated against the Capability Registry before being applied
  to the Device Context; unknown or unsupported keys fail with NotSupported, out-of-bounds
  values fail with InvalidArgument"; section 4.3: the capture ratio "is bounds-checked to
  0-100 ... (validated at configuration time, not here)"; section 7: "configuration
  failures leave the Device Context unchanged".
\<close>

definition sigma_configure ::
  "sigma_consts \<Rightarrow> sigma_env \<Rightarrow> sr_configkey \<Rightarrow> 64 word \<Rightarrow> sigma_dev_context
     \<Rightarrow> sr_error_code \<times> sigma_dev_context" where
  "sigma_configure hw env key data devc =
     (if key \<notin> set (sigma_devopts_set hw) then (SR_ERR_NA, devc)
      else if key = SR_CONF_CAPTURE_RATIO \<and> 100 < data then (SR_ERR_ARG, devc)
      else sigma_config_set hw env key data devc)"

text \<open>
  Modelled from the spec: the device context "is configured any number of times before
  acquisition starts" (section 3); the context after a sequence of configure operations,
  whatever their results.
\<close>

fun sigma_configure_all ::
  "sigma_consts \<Rightarrow> sigma_env \<Rightarrow> (sr_configkey \<times> 64 word) list \<Rightarrow> sigma_dev_context
     \<Rightarrow> sigma_dev_context" where
  "sigma_configure_all hw env [] devc = devc"
| "sigma_configure_all hw env ((key, data) # calls) devc =
     sigma_configure_all hw env calls (snd (sigma_configure hw env key data devc))"


section \<open>scpi-dmm: the command-set driver\<close>

subsection \<open>Command sets\<close>

datatype scpi_dmm_cmdcode =
    DMM_CMD_SETUP_REMOTE
  | DMM_CMD_SETUP_FUNC
  | DMM_CMD_QUERY_FUNC
  | DMM_CMD_START_ACQ
  | DMM_CMD_STOP_ACQ
  | DMM_CMD_QUERY_VALUE
  | DMM_CMD_QUERY_PREC
  | DMM_CMD_SETUP_LOCAL
  | DMM_CMD_QUERY_RANGE
  | DMM_CMD_QUERY_RANGE_AUTO
  | DMM_CMD_SETUP_RANGE
  | DMM_CMD_SETUP_RANGE_AUTO
  | DMM_CMD_QUERY_NPLC
  | DMM_CMD_SETUP_NPLC
  | DMM_CMD_SETUP_AVG_COUNT
  | DMM_CMD_QUERY_AVG_COUNT
  | DMM_CMD_SETUP_AVG
  | DMM_CMD_QUERY_AVG

text \<open>
  A command table is the list of its entries up to the terminating \<open>ALL_ZERO\<close> entry,
  each a command code with its text.
\<close>

type_synonym scpi_command = "scpi_dmm_cmdcode \<times> string"

definition cmdset_agilent :: "scpi_command list" where
  "cmdset_agilent =
     [(DMM_CMD_SETUP_REMOTE, [CHR 0x0A]),
      (DMM_CMD_SETUP_FUNC, ''CONF:%s''),
      (DMM_CMD_QUERY_FUNC, ''CONF?''),
      (DMM_CMD_START_ACQ, ''MEAS''),
      (DMM_CMD_STOP_ACQ, ''ABORT''),
      (DMM_CMD_QUERY_VALUE, ''READ?''),
      (DMM_CMD_QUERY_PREC, ''CONF?'')]"

definition cmdset_hp :: "scpi_command list" where
  "cmdset_hp =
     [(DMM_CMD_SETUP_REMOTE, [CHR 0x0A]),
      (DMM_CMD_SETUP_FUNC, ''CONF:%s''),
      (DMM_CMD_QUERY_FUNC, ''CONF?''),
      (DMM_CMD_START_ACQ, ''INIT''),
      (DMM_CMD_STOP_ACQ, ''ABORT''),
      (DMM_CMD_QUERY_VALUE, ''READ?''),
      (DMM_CMD_QUERY_PREC, ''CONF?'')]"

definition cmdset_gwinstek :: "scpi_command list" where
  "cmdset_gwinstek =
     [(DMM_CMD_SETUP_REMOTE, ''SYST:REM''),
      (DMM_CMD_SETUP_LOCAL, ''SYST:LOC''),
      (DMM_CMD_SETUP_FUNC, ''CONF:%s''),
      (DMM_CMD_QUERY_FUNC, ''CONF:STAT:FUNC?''),
      (DMM_CMD_START_ACQ, ''*CLS;SYST:REM''),
      (DMM_CMD_QUERY_VALUE, ''VAL1?''),
      (DMM_CMD_QUERY_PREC, ''SENS:DET:RATE?'')]"

definition cmdset_gwinstek_906x :: "scpi_command list" where
  "cmdset_gwinstek_906x =
     [(DMM_CMD_SETUP_REMOTE, ''SYST:REM''),
      (DMM_CMD_SETUP_LOCAL, ''SYST:LOC''),
      (DMM_CMD_SETUP_FUNC, ''CONF:%s''),
      (DMM_CMD_QUERY_FUNC, ''CONF?''),
      (DMM_CMD_START_ACQ, ''INIT''),
      (DMM_CMD_STOP_ACQ, ''ABORT''),
      (DMM_CMD_QUERY_VALUE, ''VAL1?''),
      (DMM_CMD_QUERY_PREC, ''SENS:DET:RATE?'')]"

definition cmdset_owon :: "scpi_command list" where
  "cmdset_owon =
     [(DMM_CMD_SETUP_REMOTE, ''SYST:REM''),
      (DMM_CMD_SETUP_LOCAL, ''SYST:LOC''),
      (DMM_CMD_SETUP_FUNC, ''CONF:%s''),
      (DMM_CMD_QUERY_FUNC, ''FUNC?''),
      (DMM_CMD_QUERY_VALUE, ''MEAS1?'')]"

definition cmdset_keithley :: "scpi_command list" where
  "cmdset_keithley =
     [(DMM_CMD_SETUP_REMOTE, [CHR 0x0A]),
      (DMM_CMD_SETUP_FUNC, '':FUNC '' @ [CHR 0x22] @ ''%s'' @ [CHR 0x22]),
      (DMM_CMD_QUERY_FUNC, ''FUNC?''),
      (DMM_CMD_QUERY_VALUE, ''READ?''),
      (DMM_CMD_QUERY_RANGE, ''%s:RANGE?''),
      (DMM_CMD_QUERY_RANGE_AUTO, ''%s:RANGE:AUTO?''),
      (DMM_CMD_SETUP_RANGE, ''%s:RANGE %s''),
      (DMM_CMD_SETUP_RANGE_AUTO, ''%s:RANGE:AUTO 1''),
      (DMM_CMD_SETUP_NPLC, ''%s:NPLC %2.4f''),
      (DMM_CMD_QUERY_NPLC, ''%s:NPLC?''),
      (DMM_CMD_SETUP_AVG_COUNT, ''%s:AVER:COUN %d''),
      (DMM_CMD_QUERY_AVG_COUNT, ''%s:AVER:COUN?''),
      (DMM_CMD_SETUP_AVG, ''%s:AVER %d''),
      (DMM_CMD_QUERY_AVG, ''%s:AVER?'')]"


text \<open>
  Modelled from the spec: \<open>sr_scpi_cmd_get\<close> lives in the SCPI layer, which is not part
  of the sources at hand. The spec describes the command set as an ordered mapping from
  command code to text, and \<open>get_command(code)\<close> as yielding the text or "absent": the
  text of the first entry with that code, \<open>None\<close> (the null pointer) when the table has
  none.
\<close>

fun sr_scpi_cmd_get :: "scpi_command list \<Rightarrow> scpi_dmm_cmdcode \<Rightarrow> string option" where
  "sr_scpi_cmd_get [] command = None"
| "sr_scpi_cmd_get ((code, text) # cmdtable) command =
     (if code = command then Some text else sr_scpi_cmd_get cmdtable command)"

subsection \<open>Measured quantities and the per-model option tables\<close>

datatype sr_mq =
    SR_MQ_VOLTAGE
  | SR_MQ_CURRENT
  | SR_MQ_RESISTANCE
  | SR_MQ_CAPACITANCE
  | SR_MQ_TEMPERATURE
  | SR_MQ_FREQUENCY
  | SR_MQ_CONTINUITY
  | SR_MQ_TIME

text \<open>
  \<open>enum sr_mqflag\<close> is a set of flag bits; \<open>0\<close> is the empty set and \<open>|\<close> is union.
\<close>

datatype sr_mqflag_bit =
    SR_MQFLAG_AC
  | SR_MQFLAG_DC
  | SR_MQFLAG_DIODE
  | SR_MQFLAG_FOUR_WIRE

type_synonym sr_mqflag = "sr_mqflag_bit set"

text \<open>
  A value of C's \<open>float\<close> or \<open>double\<close>: a finite number, an infinity, or not a number. A
  finite value is held as the exact rational that the bit pattern denotes (the two zeros
  are one value). \<open>c_float_le\<close> is the comparison \<open><=\<close> of C, false whenever an operand
  is not a number.
\<close>

datatype c_float = Finite rat | PlusInf | MinusInf | NaN

fun c_float_le :: "c_float \<Rightarrow> c_float \<Rightarrow> bool" where
  "c_float_le NaN y = False"
| "c_float_le x NaN = False"
| "c_float_le MinusInf y = True"
| "c_float_le x PlusInf = True"
| "c_float_le (Finite a) (Finite b) = (a \<le> b)"
| "c_float_le PlusInf y = False"
| "c_float_le x MinusInf = False"

text \<open>
  Conversion to a binary floating-point format with \<open>p\<close> significant bits and exponents
  from \<open>emin\<close> to \<open>emax\<close>, rounding to nearest with ties to even, as C does it for a
  constant and for an assignment to a narrower type. \<open>round_half_even\<close> rounds a rational
  to an integer; \<open>binade_search\<close> walks down from the largest exponent to the one whose
  power of two does not exceed the magnitude, stopping at \<open>emin\<close> (the subnormal range);
  the magnitude is then rounded to a multiple of the unit in the last place, and a result
  of \<open>2 ^ (emax + 1)\<close> or more is an infinity.
\<close>

definition round_half_even :: "rat \<Rightarrow> int" where
  "round_half_even x =
     (let f = \<lfloor>x\<rfloor>; d = x - of_int f
      in if d < 1 / 2 then f
         else if 1 / 2 < d then f + 1
         else if even f then f else f + 1)"

fun binade_search :: "nat \<Rightarrow> int \<Rightarrow> rat \<Rightarrow> int" where
  "binade_search 0 e a = e"
| "binade_search (Suc n) e a =
     (if power_int 2 e \<le> a then e else binade_search n (e - 1) a)"

definition ieee_round :: "nat \<Rightarrow> int \<Rightarrow> int \<Rightarrow> rat \<Rightarrow> c_float" where
  "ieee_round p emin emax r =
     (if r = 0 then Finite 0
      else
        (let a = \<bar>r\<bar>;
             e = binade_search (nat (emax - emin)) emax a;
             ulp = power_int 2 (e - int p + 1);
             m = of_int (round_half_even (a / ulp)) * ulp
         in if power_int 2 (emax + 1) \<le> m then (if r < 0 then MinusInf else PlusInf)
            else Finite (if r < 0 then - m else m)))"

text \<open>
  The assignment of a \<open>double\<close> to a \<open>float\<close> (24 significant bits, exponents -126 to
  127); a decimal constant of the source, which is a \<open>double\<close> (53 significant bits,
  exponents -1022 to 1023); and such a constant stored in a \<open>float\<close> member.
\<close>

definition double_to_float :: "c_float \<Rightarrow> c_float" where
  "double_to_float d = (case d of Finite r \<Rightarrow> ieee_round 24 (-126) 127 r | _ \<Rightarrow> d)"

definition double_constant :: "rat \<Rightarrow> c_float" where
  "double_constant r = ieee_round 53 (-1022) 1023 r"

definition float_constant :: "rat \<Rightarrow> c_float" where
  "float_constant r = double_to_float (double_constant r)"

record mqopt_item =
  mq :: sr_mq
  mqflag :: sr_mqflag
  scpi_func_setup :: string
  scpi_func_query :: string
  default_precision :: int

definition NO_DFLT_PREC :: int where
  "NO_DFLT_PREC = -99"

record scpi_dmm_rangeopts =
  range_mq :: sr_mq
  range_mqflag :: sr_mqflag
  scpi_range :: string
  range_str :: string

record scpi_dmm_nplcopts =
  nplc_mq :: sr_mq
  nplc_mqflag :: sr_mqflag
  nplc_min :: c_float
  nplc_max :: c_float

text \<open>The positional initialisers of the tables.\<close>

definition mqopt :: "sr_mq \<Rightarrow> sr_mqflag \<Rightarrow> string \<Rightarrow> string \<Rightarrow> int \<Rightarrow> mqopt_item" where
  "mqopt q f setup query prec =
     \<lparr>mq = q, mqflag = f, scpi_func_setup = setup, scpi_func_query = query,
      default_precision = prec\<rparr>"

definition rangeopt :: "sr_mq \<Rightarrow> sr_mqflag \<Rightarrow> string \<Rightarrow> string \<Rightarrow> scpi_dmm_rangeopts" where
  "rangeopt q f wire label =
     \<lparr>range_mq = q, range_mqflag = f, scpi_range = wire, range_str = label\<rparr>"

definition nplcopt :: "sr_mq \<Rightarrow> sr_mqflag \<Rightarrow> c_float \<Rightarrow> c_float \<Rightarrow> scpi_dmm_nplcopts" where
  "nplcopt q f lo hi = \<lparr>nplc_mq = q, nplc_mqflag = f, nplc_min = lo, nplc_max = hi\<rparr>"

definition mqopts_agilent_34405a :: "mqopt_item list" where
  "mqopts_agilent_34405a =
     [mqopt SR_MQ_VOLTAGE {SR_MQFLAG_DC} ''VOLT:DC'' ''VOLT '' NO_DFLT_PREC,
      mqopt SR_MQ_VOLTAGE {SR_MQFLAG_AC} ''VOLT:AC'' ''VOLT:AC '' NO_DFLT_PREC,
      mqopt SR_MQ_CURRENT {SR_MQFLAG_DC} ''CURR:DC'' ''CURR '' NO_DFLT_PREC,
      mqopt SR_MQ_CURRENT {SR_MQFLAG_AC} ''CURR:AC'' ''CURR:AC '' NO_DFLT_PREC,
      mqopt SR_MQ_RESISTANCE {} ''RES'' ''RES '' NO_DFLT_PREC,
      mqopt SR_MQ_CONTINUITY {} ''CONT'' ''CONT'' (-1),
      mqopt SR_MQ_CAPACITANCE {} ''CAP'' ''CAP '' NO_DFLT_PREC,
      mqopt SR_MQ_VOLTAGE {SR_MQFLAG_DC, SR_MQFLAG_DIODE} ''DIOD'' ''DIOD'' (-4),
      mqopt SR_MQ_TEMPERATURE {} ''TEMP'' ''TEMP '' NO_DFLT_PREC,
      mqopt SR_MQ_FREQUENCY {} ''FREQ'' ''FREQ '' NO_DFLT_PREC]"

definition mqopts_agilent_34401a :: "mqopt_item list" where
  "mqopts_agilent_34401a =
     [mqopt SR_MQ_VOLTAGE {SR_MQFLAG_DC} ''VOLT:DC'' ''VOLT '' NO_DFLT_PREC,
      mqopt SR_MQ_VOLTAGE {SR_MQFLAG_AC} ''VOLT:AC'' ''VOLT:AC '' NO_DFLT_PREC,
      mqopt SR_MQ_CURRENT {SR_MQFLAG_DC} ''CURR:DC'' ''CURR '' NO_DFLT_PREC,
      mqopt SR_MQ_CURRENT {SR_MQFLAG_AC} ''CURR:AC'' ''CURR:AC '' NO_DFLT_PREC,
      mqopt SR_MQ_RESISTANCE {} ''RES'' ''RES '' NO_DFLT_PREC,
      mqopt SR_MQ_RESISTANCE {SR_MQFLAG_FOUR_WIRE} ''FRES'' ''FRES '' NO_DFLT_PREC,
      mqopt SR_MQ_CONTINUITY {} ''CONT'' ''CONT'' (-1),
      mqopt SR_MQ_VOLTAGE {SR_MQFLAG_DC, SR_MQFLAG_DIODE} ''DIOD'' ''DIOD'' (-4),
      mqopt SR_MQ_FREQUENCY {} ''FREQ'' ''FREQ '' NO_DFLT_PREC,
      mqopt SR_MQ_TIME {} ''PER'' ''PER '' NO_DFLT_PREC]"

definition mqopts_gwinstek_gdm8200a :: "mqopt_item list" where
  "mqopts_gwinstek_gdm8200a =
     [mqopt SR_MQ_VOLTAGE {SR_MQFLAG_DC} ''VOLT:DC'' ''01'' NO_DFLT_PREC,
      mqopt SR_MQ_VOLTAGE {SR_MQFLAG_AC} ''VOLT:AC'' ''02'' NO_DFLT_PREC,
      mqopt SR_MQ_CURRENT {SR_MQFLAG_DC} ''CURR:DC'' ''03'' NO_DFLT_PREC,
      mqopt SR_MQ_CURRENT {SR_MQFLAG_AC} ''CURR:AC'' ''04'' NO_DFLT_PREC,
      mqopt SR_MQ_CURRENT {SR_MQFLAG_DC} ''CURR:DC'' ''05'' NO_DFLT_PREC,
      mqopt SR_MQ_CURRENT {SR_MQFLAG_AC} ''CURR:AC'' ''06'' NO_DFLT_PREC,
      mqopt SR_MQ_RESISTANCE {} ''RES'' ''07'' NO_DFLT_PREC,
      mqopt SR_MQ_RESISTANCE {SR_MQFLAG_FOUR_WIRE} ''FRES'' ''16'' NO_DFLT_PREC,
      mqopt SR_MQ_CONTINUITY {} ''CONT'' ''13'' (-1),
      mqopt SR_MQ_VOLTAGE {SR_MQFLAG_DC, SR_MQFLAG_DIODE} ''DIOD'' ''17'' (-4),
      mqopt SR_MQ_TEMPERATURE {} ''TEMP'' ''09'' NO_DFLT_PREC,
      mqopt SR_MQ_TEMPERATURE {} ''TEMP'' ''15'' NO_DFLT_PREC,
      mqopt SR_MQ_FREQUENCY {} ''FREQ'' ''08'' NO_DFLT_PREC,
      mqopt SR_MQ_TIME {} ''PER'' ''14'' NO_DFLT_PREC]"

definition mqopts_gwinstek_gdm906x :: "mqopt_item list" where
  "mqopts_gwinstek_gdm906x =
     [mqopt SR_MQ_VOLTAGE {SR_MQFLAG_DC} ''VOLT:DC'' ''VOLT '' NO_DFLT_PREC,
      mqopt SR_MQ_VOLTAGE {SR_MQFLAG_AC} ''VOLT:AC'' ''VOLT:AC'' NO_DFLT_PREC,
      mqopt SR_MQ_CURRENT {SR_MQFLAG_DC} ''CURR:DC'' ''CURR '' NO_DFLT_PREC,
      mqopt SR_MQ_CURRENT {SR_MQFLAG_AC} ''CURR:AC'' ''CURR:AC'' NO_DFLT_PREC,
      mqopt SR_MQ_RESISTANCE {} ''RES'' ''RES'' NO_DFLT_PREC,
      mqopt SR_MQ_RESISTANCE {SR_MQFLAG_FOUR_WIRE} ''FRES'' ''FRES'' NO_DFLT_PREC,
      mqopt SR_MQ_CONTINUITY {} ''CONT'' ''CONT'' (-1),
      mqopt SR_MQ_VOLTAGE {SR_MQFLAG_DC, SR_MQFLAG_DIODE} ''DIOD'' ''DIOD'' (-4),
      mqopt SR_MQ_TEMPERATURE {} ''TEMP'' ''TEMP'' NO_DFLT_PREC,
      mqopt SR_MQ_FREQUENCY {} ''FREQ'' ''FREQ'' NO_DFLT_PREC,
      mqopt SR_MQ_TIME {} ''PER'' ''PER'' NO_DFLT_PREC,
      mqopt SR_MQ_CAPACITANCE {} ''CAP'' ''CAP'' NO_DFLT_PREC]"

definition mqopts_owon_xdm2041 :: "mqopt_item list" where
  "mqopts_owon_xdm2041 =
     [mqopt SR_MQ_VOLTAGE {SR_MQFLAG_AC} ''VOLT:AC'' ''VOLT AC'' NO_DFLT_PREC,
      mqopt SR_MQ_VOLTAGE {SR_MQFLAG_DC} ''VOLT:DC'' ''VOLT'' NO_DFLT_PREC,
      mqopt SR_MQ_CURRENT {SR_MQFLAG_AC} ''CURR:AC'' ''CURR AC'' NO_DFLT_PREC,
      mqopt SR_MQ_CURRENT {SR_MQFLAG_DC} ''CURR:DC'' ''CURR'' NO_DFLT_PREC,
      mqopt SR_MQ_RESISTANCE {} ''RES'' ''RES'' NO_DFLT_PREC,
      mqopt SR_MQ_RESISTANCE {SR_MQFLAG_FOUR_WIRE} ''FRES'' ''FRES'' NO_DFLT_PREC,
      mqopt SR_MQ_CONTINUITY {} ''CONT'' ''CONT'' (-1),
      mqopt SR_MQ_VOLTAGE {SR_MQFLAG_DC, SR_MQFLAG_DIODE} ''DIOD'' ''DIOD'' (-4),
      mqopt SR_MQ_TEMPERATURE {} ''TEMP'' ''TEMP'' NO_DFLT_PREC,
      mqopt SR_MQ_FREQUENCY {} ''FREQ'' ''FREQ'' NO_DFLT_PREC,
      mqopt SR_MQ_CAPACITANCE {} ''CAP'' ''CAP'' NO_DFLT_PREC]"

definition mqopts_keithley_dmm6500 :: "mqopt_item list" where
  "mqopts_keithley_dmm6500 =
     [mqopt SR_MQ_VOLTAGE {SR_MQFLAG_DC} ''VOLT:DC'' ''VOLT:DC'' NO_DFLT_PREC,
      mqopt SR_MQ_VOLTAGE {SR_MQFLAG_AC} ''VOLT:AC'' ''VOLT:AC'' NO_DFLT_PREC,
      mqopt SR_MQ_CURRENT {SR_MQFLAG_DC} ''CURR:DC'' ''CURR:DC'' NO_DFLT_PREC,
      mqopt SR_MQ_CURRENT {SR_MQFLAG_AC} ''CURR:AC'' ''CURR:AC'' NO_DFLT_PREC,
      mqopt SR_MQ_RESISTANCE {} ''RES'' ''RES'' NO_DFLT_PREC,
      mqopt SR_MQ_RESISTANCE {SR_MQFLAG_FOUR_WIRE} ''FRES'' ''FRES'' NO_DFLT_PREC,
      mqopt SR_MQ_CONTINUITY {} ''CONT'' ''CONT'' (-1),
      mqopt SR_MQ_VOLTAGE {SR_MQFLAG_DC, SR_MQFLAG_DIODE} ''DIOD'' ''DIOD'' (-4),
      mqopt SR_MQ_TEMPERATURE {} ''TEMP'' ''TEMP'' NO_DFLT_PREC,
      mqopt SR_MQ_FREQUENCY {} ''FREQ'' ''FREQ'' NO_DFLT_PREC,
      mqopt SR_MQ_TIME {} ''PER'' ''PER'' NO_DFLT_PREC,
      mqopt SR_MQ_CAPACITANCE {} ''CAP'' ''CAP'' NO_DFLT_PREC]"

definition rangeopts_keithley_dmm6500 :: "scpi_dmm_rangeopts list" where
  "rangeopts_keithley_dmm6500 =
     [rangeopt SR_MQ_VOLTAGE {SR_MQFLAG_DC} ''AUTO'' ''Auto'',
      rangeopt SR_MQ_VOLTAGE {SR_MQFLAG_DC} ''0.1'' ''100mV'',
      rangeopt SR_MQ_VOLTAGE {SR_MQFLAG_DC} ''1'' ''1V'',
      rangeopt SR_MQ_VOLTAGE {SR_MQFLAG_DC} ''10'' ''10V'',
      rangeopt SR_MQ_VOLTAGE {SR_MQFLAG_DC} ''100'' ''100V'',
      rangeopt SR_MQ_VOLTAGE {SR_MQFLAG_DC} ''1000'' ''1000V'',
      rangeopt SR_MQ_VOLTAGE {SR_MQFLAG_AC} ''AUTO'' ''Auto'',
      rangeopt SR_MQ_VOLTAGE {SR_MQFLAG_AC} ''0.1'' ''100mV'',
      rangeopt SR_MQ_VOLTAGE {SR_MQFLAG_AC} ''1'' ''1V'',
      rangeopt SR_MQ_VOLTAGE {SR_MQFLAG_AC} ''10'' ''10V'',
      rangeopt SR_MQ_VOLTAGE {SR_MQFLAG_AC} ''100'' ''100V'',
      rangeopt SR_MQ_VOLTAGE {SR_MQFLAG_AC} ''750'' ''750V'',
      rangeopt SR_MQ_CURRENT {SR_MQFLAG_DC} ''AUTO'' ''Auto'',
      rangeopt SR_MQ_CURRENT {SR_MQFLAG_DC} ''1E-05'' ''10uA'',
      rangeopt SR_MQ_CURRENT {SR_MQFLAG_DC} ''0.0001'' ''100uA'',
      rangeopt SR_MQ_CURRENT {SR_MQFLAG_DC} ''0.001'' ''1mA'',
      rangeopt SR_MQ_CURRENT {SR_MQFLAG_DC} ''0.01'' ''10mA'',
      rangeopt SR_MQ_CURRENT {SR_MQFLAG_DC} ''0.1'' ''100mA'',
      rangeopt SR_MQ_CURRENT {SR_MQFLAG_DC} ''1'' ''1A'',
      rangeopt SR_MQ_CURRENT {SR_MQFLAG_DC} ''3'' ''3A'',
      rangeopt SR_MQ_CURRENT {SR_MQFLAG_DC} ''10'' ''10A'',
      rangeopt SR_MQ_CURRENT {SR_MQFLAG_AC} ''AUTO'' ''Auto'',
      rangeopt SR_MQ_CURRENT {SR_MQFLAG_AC} ''0.001'' ''1mA'',
      rangeopt SR_MQ_CURRENT {SR_MQFLAG_AC} ''0.01'' ''10mA'',
      rangeopt SR_MQ_CURRENT {SR_MQFLAG_AC} ''0.1'' ''100mA'',
      rangeopt SR_MQ_CURRENT {SR_MQFLAG_AC} ''1'' ''1A'',
      rangeopt SR_MQ_CURRENT {SR_MQFLAG_AC} ''3'' ''3A'',
      rangeopt SR_MQ_RESISTANCE {} ''AUTO'' ''Auto'',
      rangeopt SR_MQ_RESISTANCE {} ''10'' ''10'',
      rangeopt SR_MQ_RESISTANCE {} ''100'' ''100'',
      rangeopt SR_MQ_RESISTANCE {} ''1000'' ''1k'',
      rangeopt SR_MQ_RESISTANCE {} ''10000'' ''10k'',
      rangeopt SR_MQ_RESISTANCE {} ''100000'' ''100k'',
      rangeopt SR_MQ_RESISTANCE {} ''1E+06'' ''1M'',
      rangeopt SR_MQ_RESISTANCE {} ''1E+07'' ''10M'',
      rangeopt SR_MQ_RESISTANCE {} ''1E+08'' ''100M'',
      rangeopt SR_MQ_RESISTANCE {SR_MQFLAG_FOUR_WIRE} ''AUTO'' ''Auto'',
      rangeopt SR_MQ_RESISTANCE {SR_MQFLAG_FOUR_WIRE} ''1'' ''1'',
      rangeopt SR_MQ_RESISTANCE {SR_MQFLAG_FOUR_WIRE} ''10'' ''10'',
      rangeopt SR_MQ_RESISTANCE {SR_MQFLAG_FOUR_WIRE} ''100'' ''100'',
      rangeopt SR_MQ_RESISTANCE {SR_MQFLAG_FOUR_WIRE} ''1000'' ''1k'',
      rangeopt SR_MQ_RESISTANCE {SR_MQFLAG_FOUR_WIRE} ''10000'' ''10k'',
      rangeopt SR_MQ_RESISTANCE {SR_MQFLAG_FOUR_WIRE} ''100000'' ''100k'',
      rangeopt SR_MQ_RESISTANCE {SR_MQFLAG_FOUR_WIRE} ''1E+06'' ''1M'',
      rangeopt SR_MQ_RESISTANCE {SR_MQFLAG_FOUR_WIRE} ''1E+07'' ''10M'',
      rangeopt SR_MQ_RESISTANCE {SR_MQFLAG_FOUR_WIRE} ''1E+08'' ''100M'',
      rangeopt SR_MQ_VOLTAGE {SR_MQFLAG_DC, SR_MQFLAG_DIODE} '''' ''10V'',
      rangeopt SR_MQ_CAPACITANCE {} ''AUTO'' ''Auto'',
      rangeopt SR_MQ_CAPACITANCE {} ''1E-09'' ''1nF'',
      rangeopt SR_MQ_CAPACITANCE {} ''1E-08'' ''10nF'',
      rangeopt SR_MQ_CAPACITANCE {} ''1E-07'' ''100nF'',
      rangeopt SR_MQ_CAPACITANCE {} ''1E-06'' ''1uF'',
      rangeopt SR_MQ_CAPACITANCE {} ''1E-05'' ''10uF'',
      rangeopt SR_MQ_CAPACITANCE {} ''0.0001'' ''100uF'',
      rangeopt SR_MQ_CONTINUITY {} '''' ''1k'',
      rangeopt SR_MQ_TEMPERATURE {} '''' ''Auto'',
      rangeopt SR_MQ_FREQUENCY {} '''' ''Auto'',
      rangeopt SR_MQ_TIME {} '''' ''Auto'']"

definition nplcopts_keithley_dmm6500 :: "scpi_dmm_nplcopts list" where
  "nplcopts_keithley_dmm6500 =
     [nplcopt SR_MQ_VOLTAGE {SR_MQFLAG_DC} (float_constant 0.0005) (float_constant 12.0),
      nplcopt SR_MQ_CURRENT {SR_MQFLAG_DC} (float_constant 0.0005) (float_constant 12.0),
      nplcopt SR_MQ_RESISTANCE {} (float_constant 0.0005) (float_constant 12.0),
      nplcopt SR_MQ_RESISTANCE {SR_MQFLAG_FOUR_WIRE} (float_constant 0.0005) (float_constant 12.0),
      nplcopt SR_MQ_VOLTAGE {SR_MQFLAG_DC, SR_MQFLAG_DIODE} (float_constant 0.0005) (float_constant 12.0)]"

subsection \<open>The model table\<close>

datatype get_measurement_fn =
    scpi_dmm_get_meas_agilent
  | scpi_dmm_get_meas_gwinstek
  | scpi_dmm_get_meas_keithley

datatype devopts_table = devopts_generic | devopts_keithley

record scpi_dmm_model =
  vendor :: string
  model :: string
  num_channels :: nat
  digits :: int
  cmdset :: "scpi_command list"
  mqopts :: "mqopt_item list"
  get_measurement :: get_measurement_fn
  devopts :: devopts_table
  read_timeout_us :: nat
  infinity_limit :: c_float
  rangeopts :: "scpi_dmm_rangeopts list"
  nplcopts :: "scpi_dmm_nplcopts list"
  avg_min :: "64 word"
  avg_max :: "64 word"

definition dmm_model ::
  "string \<Rightarrow> string \<Rightarrow> nat \<Rightarrow> int \<Rightarrow> scpi_command list \<Rightarrow> mqopt_item list
     \<Rightarrow> get_measurement_fn \<Rightarrow> devopts_table \<Rightarrow> nat \<Rightarrow> c_float
     \<Rightarrow> scpi_dmm_rangeopts list \<Rightarrow> scpi_dmm_nplcopts list \<Rightarrow> 64 word \<Rightarrow> 64 word
     \<Rightarrow> scpi_dmm_model" where
  "dmm_model v m n d cs mqs meas opts tmo inflimit ranges nplcs amin amax =
     \<lparr>vendor = v, model = m, num_channels = n, digits = d, cmdset = cs, mqopts = mqs,
      get_measurement = meas, devopts = opts, read_timeout_us = tmo, infinity_limit = inflimit,
      rangeopts = ranges, nplcopts = nplcs, avg_min = amin, avg_max = amax\<rparr>"

definition models :: "scpi_dmm_model list" where
  "models =
     [dmm_model ''Agilent'' ''34405A'' 1 5 cmdset_agilent mqopts_agilent_34405a
        scpi_dmm_get_meas_agilent devopts_generic 0 (Finite 0) [] [] 0 0,
      dmm_model ''Agilent'' ''34410A'' 1 6 cmdset_hp mqopts_agilent_34405a
        scpi_dmm_get_meas_agilent devopts_generic 0 (Finite 0) [] [] 0 0,
      dmm_model ''GW'' ''GDM8251A'' 1 6 cmdset_gwinstek mqopts_gwinstek_gdm8200a
        scpi_dmm_get_meas_gwinstek devopts_generic (1000 * 2500) (Finite 0) [] [] 0 0,
      dmm_model ''GW'' ''GDM8255A'' 1 6 cmdset_gwinstek mqopts_gwinstek_gdm8200a
        scpi_dmm_get_meas_gwinstek devopts_generic (1000 * 2500) (Finite 0) [] [] 0 0,
      dmm_model ''GWInstek'' ''GDM9060'' 1 6 cmdset_gwinstek_906x mqopts_gwinstek_gdm906x
        scpi_dmm_get_meas_agilent devopts_generic 0 (Finite 0) [] [] 0 0,
      dmm_model ''GWInstek'' ''GDM9061'' 1 6 cmdset_gwinstek_906x mqopts_gwinstek_gdm906x
        scpi_dmm_get_meas_agilent devopts_generic 0 (Finite 0) [] [] 0 0,
      dmm_model ''HP'' ''34401A'' 1 6 cmdset_hp mqopts_agilent_34401a
        scpi_dmm_get_meas_agilent devopts_generic (1000 * 1500) (Finite 0) [] [] 0 0,
      dmm_model ''KEITHLEY INSTRUMENTS INC.'' ''34401A'' 1 6 cmdset_hp mqopts_agilent_34401a
        scpi_dmm_get_meas_agilent devopts_generic (1000 * 1500) (Finite 0) [] [] 0 0,
      dmm_model ''KEITHLEY INSTRUMENTS'' ''MODEL DMM6500'' 1 5 cmdset_keithley
        mqopts_keithley_dmm6500
        scpi_dmm_get_meas_keithley devopts_keithley 0 (Finite 0)
        rangeopts_keithley_dmm6500 nplcopts_keithley_dmm6500 1 100,
      dmm_model ''Keysight'' ''34465A'' 1 5 cmdset_agilent mqopts_agilent_34405a
        scpi_dmm_get_meas_agilent devopts_generic 0 (Finite 0) [] [] 0 0,
      dmm_model ''OWON'' ''XDM2041'' 1 5 cmdset_owon mqopts_owon_xdm2041
        scpi_dmm_get_meas_gwinstek devopts_generic 0 (Finite 1000000000) [] [] 0 0]"

text \<open>\<open>is_compatible\<close>: the first entry of the table with this vendor and this model.\<close>

definition is_compatible :: "string \<Rightarrow> string \<Rightarrow> scpi_dmm_model option" where
  "is_compatible v m = find (\<lambda>entry. v = vendor entry \<and> m = model entry) models"



subsection \<open>Connection, device context and device instance\<close>

text \<open>
  The SCPI connection, as far as the driver touches it: the commands sent over it, in
  order, and the two members that \<open>probe_device\<close> sets.
\<close>

record sr_scpi_dev_inst =
  sent :: "string list"
  no_opc_command :: bool
  scpi_read_timeout_us :: nat

text \<open>
  \<open>struct dev_context\<close>, with the members that the functions below read or write. The
  prefix keeps the members apart from those of the model table.
\<close>

record dmm_dev_context =
  devc_num_channels :: nat
  devc_cmdset :: "scpi_command list"
  devc_model :: scpi_dmm_model
  precision :: "string option"

datatype sr_datafeed_packet = SR_DF_END

text \<open>
  The device instance: identity strings, the connection (a pointer that \<open>dev_close\<close>
  tests for null), the driver's context, the status, whether the session holds the
  connection as an event source, and the packets sent to the session.
\<close>

record dmm_dev_inst =
  sdi_vendor :: string
  sdi_model :: string
  sdi_version :: string
  sdi_serial_num :: string
  connection_id :: "string option"
  channels :: "string list"
  conn :: "sr_scpi_dev_inst option"
  dmm_priv :: dmm_dev_context
  status :: int
  source_registered :: bool
  feed :: "sr_datafeed_packet list"

record sr_scpi_hw_info =
  manufacturer :: string
  hw_model :: string
  firmware_version :: string
  serial_number :: string

text \<open>
  What the SCPI layer and protocol.c answer. The driver acts on these results; how they
  come about is outside api.c. \<open>scpi_dmm_get_range_auto\<close> and \<open>scpi_dmm_get_range\<close> hand
  back a status and the reply text, a null pointer when there is none.
\<close>

record dmm_env =
  sr_scpi_get_data_opc :: sr_error_code
  sr_scpi_get_hw_id :: "sr_error_code \<times> sr_scpi_hw_info"
  sr_vendor_alias :: "string \<Rightarrow> string"
  sr_scpi_connection_id :: "sr_error_code \<times> string"
  sr_scpi_send :: "string \<Rightarrow> sr_error_code"
  sr_scpi_close :: sr_error_code
  scpi_dmm_get_mq :: "sr_error_code \<times> sr_mq \<times> sr_mqflag"
  scpi_dmm_get_range_auto :: "sr_mq \<Rightarrow> sr_mqflag \<Rightarrow> sr_error_code \<times> string option"
  scpi_dmm_get_range :: "sr_mq \<Rightarrow> sr_mqflag \<Rightarrow> sr_error_code \<times> string option"
  scpi_dmm_set_nplc :: "sr_mq \<Rightarrow> sr_mqflag \<Rightarrow> c_float \<Rightarrow> sr_error_code"

text \<open>
  The idiom of \<open>probe_device\<close>, \<open>dev_close\<close> and \<open>dev_acquisition_stop\<close>:
  \<open>if (command && *command) { scpi_dmm_cmd_delay(scpi); sr_scpi_send(scpi, command); }\<close>.
  The status of the send is dropped at all three places.
\<close>

definition send_command_if_present ::
  "string option \<Rightarrow> sr_scpi_dev_inst \<Rightarrow> sr_scpi_dev_inst" where
  "send_command_if_present command scpi =
     (case command of
        None \<Rightarrow> scpi
      | Some text \<Rightarrow> if text = [] then scpi else scpi\<lparr>sent := sent scpi @ [text]\<rparr>)"

subsection \<open>probe_device\<close>

definition probe_opc_support :: "dmm_env \<Rightarrow> bool" where
  "probe_opc_support env = (if sr_scpi_get_data_opc env \<noteq> SR_OK then False else True)"

text \<open>The text of \<open>%zu\<close>.\<close>

function decimal :: "nat \<Rightarrow> string" where
  "decimal n =
     (if n < 10 then [char_of (48 + n)]
      else decimal (n div 10) @ [char_of (48 + n mod 10)])"
  by pat_completeness auto
termination
  by (relation "measure (\<lambda>n. n)") auto

declare decimal.simps [simp del]

text \<open>
  The result is the new device instance, or nothing (the null pointer), and the connection
  as the probe leaves it; the instance holds that same connection.
\<close>

definition probe_device ::
  "dmm_env \<Rightarrow> sr_scpi_dev_inst \<Rightarrow> dmm_dev_inst option \<times> sr_scpi_dev_inst" where
  "probe_device env scpi0 =
     (let scpi1 = (if \<not> probe_opc_support env then scpi0\<lparr>no_opc_command := True\<rparr> else scpi0)
      in case sr_scpi_get_hw_id env of (ret, hw_info) \<Rightarrow>
        if ret \<noteq> SR_OK then (None, scpi1)
        else
          (case is_compatible (sr_vendor_alias env (manufacturer hw_info)) (hw_model hw_info) of
             None \<Rightarrow> (None, scpi1)
           | Some entry \<Rightarrow>
               (let scpi2 = (if read_timeout_us entry \<noteq> 0
                             then scpi1\<lparr>scpi_read_timeout_us := read_timeout_us entry\<rparr>
                             else scpi1);
                    devc = \<lparr>devc_num_channels = num_channels entry,
                            devc_cmdset = cmdset entry,
                            devc_model = entry,
                            precision = None\<rparr>;
                    command = sr_scpi_cmd_get (devc_cmdset devc) DMM_CMD_SETUP_LOCAL;
                    scpi3 = send_command_if_present command scpi2
                in (Some \<lparr>sdi_vendor = manufacturer hw_info,
                          sdi_model = hw_model hw_info,
                          sdi_version = firmware_version hw_info,
                          sdi_serial_num = serial_number hw_info,
                          connection_id =
                            (case sr_scpi_connection_id env of
                               (ret_id, text) \<Rightarrow> if ret_id \<noteq> SR_OK then None else Some text),
                          channels =
                            map (\<lambda>i. ''P'' @ decimal (i + 1)) [0..<devc_num_channels devc],
                          conn = Some scpi3,
                          dmm_priv = devc,
                          status = 0,
                          source_registered = False,
                          feed = []\<rparr>,
                    scpi3))))"

subsection \<open>dev_close\<close>

text \<open>\<open>SR_ST_INACTIVE\<close> is a constant of libsigrok.h, a parameter here.\<close>

definition dmm_dev_close ::
  "dmm_env \<Rightarrow> int \<Rightarrow> dmm_dev_inst \<Rightarrow> sr_error_code \<times> dmm_dev_inst" where
  "dmm_dev_close env SR_ST_INACTIVE sdi =
     (case conn sdi of
        None \<Rightarrow> (SR_ERR_BUG, sdi)
      | Some scpi \<Rightarrow>
          if status sdi \<le> SR_ST_INACTIVE then (SR_OK, sdi)
          else
            (let command = sr_scpi_cmd_get (devc_cmdset (dmm_priv sdi)) DMM_CMD_SETUP_LOCAL
             in (sr_scpi_close env,
                 sdi\<lparr>conn := Some (send_command_if_present command scpi)\<rparr>)))"

subsection \<open>dev_acquisition_stop\<close>

text \<open>
  The connection is used without a test here; \<open>None\<close> is the use of a null connection.
\<close>

definition dmm_dev_acquisition_stop ::
  "dmm_dev_inst \<Rightarrow> (sr_error_code \<times> dmm_dev_inst) option" where
  "dmm_dev_acquisition_stop sdi =
     (case conn sdi of
        None \<Rightarrow> None
      | Some scpi \<Rightarrow>
          (let command = sr_scpi_cmd_get (devc_cmdset (dmm_priv sdi)) DMM_CMD_STOP_ACQ
           in Some (SR_OK,
                    sdi\<lparr>conn := Some (send_command_if_present command scpi),
                        source_registered := False,
                        feed := feed sdi @ [SR_DF_END],
                        dmm_priv := (dmm_priv sdi)\<lparr>precision := None\<rparr>\<rparr>)))"

subsection \<open>config_get, case SR_CONF_RANGE\<close>

text \<open>
  The value stored through \<open>data\<close>: a string variant made from a label of the table, or
  made from the local \<open>range_str\<close> while that pointer has never been assigned.
\<close>

datatype range_variant =
    G_variant_string string
  | G_variant_string_of_unassigned_pointer

text \<open>
  The status and what is stored through \<open>data\<close>, if anything. The local \<open>range_str\<close> is
  \<open>None\<close> until one of the loops assigns it.
\<close>

definition dmm_config_get_range ::
  "dmm_env \<Rightarrow> dmm_dev_context \<Rightarrow> sr_error_code \<times> range_variant option" where
  "dmm_config_get_range env devc =
     (case scpi_dmm_get_mq env of (ret, q, f) \<Rightarrow>
        if ret \<noteq> SR_OK then (ret, None)
        else
          (case find (\<lambda>r. range_mq r = q \<and> range_mqflag r = f \<and> scpi_range r = [])
                  (rangeopts (devc_model devc)) of
             Some r \<Rightarrow> (SR_OK, Some (G_variant_string (range_str r)))
           | None \<Rightarrow>
               (case scpi_dmm_get_range_auto env q f of (ret_auto, range_auto) \<Rightarrow>
                  if ret_auto \<noteq> SR_OK then (ret_auto, None)
                  else
                    (case (if range_auto = None then scpi_dmm_get_range env q f
                           else (SR_OK, range_auto)) of
                       (ret_range, range_query) \<Rightarrow>
                         if ret_range \<noteq> SR_OK then (ret_range, None)
                         else
                           (case map_option range_str
                                   (find (\<lambda>r. range_mq r = q \<and> range_mqflag r = f
                                               \<and> Some (scpi_range r) = range_query)
                                      (rangeopts (devc_model devc))) of
                              Some label \<Rightarrow> (SR_OK, Some (G_variant_string label))
                            | None \<Rightarrow>
                                (SR_OK, Some G_variant_string_of_unassigned_pointer))))))"

subsection \<open>config_set, case SR_CONF_ADC_POWERLINE_CYCLES\<close>

text \<open>
  The argument \<open>data\<close> is the \<open>double\<close> that the caller requests, as
  \<open>g_variant_get_double\<close> hands it out. The assignment to the local \<open>float nplc\<close> narrows
  it; the bounds of the table are compared with, and the device is sent, the narrowed
  value.
\<close>

definition dmm_config_set_nplc ::
  "dmm_env \<Rightarrow> dmm_dev_context \<Rightarrow> c_float \<Rightarrow> sr_error_code" where
  "dmm_config_set_nplc env devc data =
     (case scpi_dmm_get_mq env of (ret, q, f) \<Rightarrow>
        if ret \<noteq> SR_OK then ret
        else
          (let nplc = double_to_float data
           in case find (\<lambda>e. nplc_mq e = q \<and> nplc_mqflag e = f)
                     (nplcopts (devc_model devc)) of
                Some e \<Rightarrow>
                  if c_float_le (nplc_min e) nplc \<and> c_float_le nplc (nplc_max e)
                  then scpi_dmm_set_nplc env q f nplc
                  else SR_ERR_DATA
              | None \<Rightarrow> SR_ERR_NA))"

text \<open>
  The notions that the properties of the command-set driver speak of: a command is there
  to be sent, and the first NPLC entry of a table for a quantity.
\<close>

definition command_present :: "string option \<Rightarrow> bool" where
  "command_present command \<longleftrightarrow> (case command of None \<Rightarrow> False | Some text \<Rightarrow> text \<noteq> [])"

definition nplc_entry ::
  "scpi_dmm_nplcopts list \<Rightarrow> sr_mq \<Rightarrow> sr_mqflag \<Rightarrow> scpi_dmm_nplcopts option" where
  "nplc_entry table q f = find (\<lambda>e. nplc_mq e = q \<and> nplc_mqflag e = f) table"

definition mq_pairs :: "mqopt_item list \<Rightarrow> (sr_mq \<times> sr_mqflag) list" where
  "mq_pairs table = map (\<lambda>item. (mq item, mqflag item)) table"



section \<open>Configurations for the examples\<close>

text \<open>
  A setting of the constants of protocol.h, helpers that succeed and leave the device
  context as it is, and device instances at a given sample rate and capture ratio.
\<close>

definition example_consts :: sigma_consts where
  "example_consts =
     \<lparr>LEDSEL0 = 6, LEDSEL1 = 7, WMR_TRGRES = 1, WMR_SDRAMWRITEEN = 2, WMR_TRGEN = 4,
      ASIX_SIGMA_WITH_TRIGGER = True\<rparr>"

definition example_env :: sigma_env where
  "example_env =
     \<lparr>sigma_set_samplerate = (\<lambda>devc. (SR_OK, devc)),
      sigma_set_acquire_timeout = (\<lambda>devc. (SR_OK, devc)),
      sigma_convert_trigger = (\<lambda>devc. (SR_OK, devc)),
      sigma_normalize_samplerate = (\<lambda>rate. (SR_OK, rate)),
      sr_sw_limits_config_set = (\<lambda>key data devc. (SR_OK, devc))\<rparr>"

definition example_devc :: "64 word \<Rightarrow> 16 word \<Rightarrow> 16 word \<Rightarrow> sigma_dev_context" where
  "example_devc rate rising falling =
     \<lparr>samplerate = rate, capture_ratio = 50,
      trigger = \<lparr>risingmask = rising, fallingmask = falling\<rparr>, state = SIGMA_IDLE\<rparr>"

definition example_sdi :: sigma_dev_inst where
  "example_sdi = \<lparr>priv = example_devc (SR_MHZ 25) 0 0, session_sources = []\<rparr>"

definition example_sdi_at ::
  "64 word \<Rightarrow> 64 word \<Rightarrow> 16 word \<Rightarrow> 16 word \<Rightarrow> sigma_dev_inst" where
  "example_sdi_at rate ratio rising falling =
     \<lparr>priv = \<lparr>samplerate = rate, capture_ratio = ratio,
              trigger = \<lparr>risingmask = rising, fallingmask = falling\<rparr>, state = SIGMA_IDLE\<rparr>,
      session_sources = []\<rparr>"

text \<open>What \<open>dev_acquisition_start\<close> makes of \<open>example_sdi\<close>, and what it sends.\<close>

definition example_sdi_started :: sigma_dev_inst where
  "example_sdi_started =
     \<lparr>priv = \<lparr>samplerate = 25000000, capture_ratio = 50,
              trigger = \<lparr>risingmask = 0, fallingmask = 0\<rparr>, state = SIGMA_CAPTURE\<rparr>,
      session_sources = [-1]\<rparr>"

definition example_start_actions :: "sigma_action list" where
  "example_start_actions =
     [Set_register WRITE_TRIGGER_SELECT2 0x20,
      Write_trigger_lut \<lparr>risingmask = 0, fallingmask = 0\<rparr>,
      Write_triggerinout WRITE_TRIGGER_OPTION \<lparr>trgout_bytrigger = 1, trgout_enable = 1\<rparr>,
      Set_register WRITE_TRIGGER_SELECT2 0xC0,
      Write_register WRITE_CLOCK_SELECT [0, 1, 0, 0],
      Set_register WRITE_POST_TRIGGER 127,
      Set_register WRITE_MODE 7,
      Send_df_header]"


text \<open>
  For the command-set driver: answers of the SCPI layer and of protocol.c in which every
  call succeeds, the device reports the given quantity and the given replies to the two
  range queries, and identifies itself as an Agilent 34405A; three entries of the model
  table; and a device instance of a model, open and acquiring.
\<close>

definition example_dmm_env ::
  "sr_mq \<Rightarrow> sr_mqflag \<Rightarrow> string option \<Rightarrow> string option \<Rightarrow> dmm_env" where
  "example_dmm_env q f auto_reply range_reply =
     \<lparr>sr_scpi_get_data_opc = SR_OK,
      sr_scpi_get_hw_id =
        (SR_OK, \<lparr>manufacturer = ''Agilent'', hw_model = ''34405A'',
                 firmware_version = ''1.0'', serial_number = ''0001''\<rparr>),
      sr_vendor_alias = (\<lambda>name. name),
      sr_scpi_connection_id = (SR_OK, ''usbtmc/1.2''),
      sr_scpi_send = (\<lambda>command. SR_OK),
      sr_scpi_close = SR_OK,
      scpi_dmm_get_mq = (SR_OK, q, f),
      scpi_dmm_get_range_auto = (\<lambda>q f. (SR_OK, auto_reply)),
      scpi_dmm_get_range = (\<lambda>q f. (SR_OK, range_reply)),
      scpi_dmm_set_nplc = (\<lambda>q f nplc. SR_OK)\<rparr>"

definition model_agilent_34405a :: scpi_dmm_model where
  "model_agilent_34405a = models ! 0"

definition model_keithley_dmm6500 :: scpi_dmm_model where
  "model_keithley_dmm6500 = models ! 8"

definition model_owon_xdm2041 :: scpi_dmm_model where
  "model_owon_xdm2041 = models ! 10"

definition example_dmm_devc :: "scpi_dmm_model \<Rightarrow> dmm_dev_context" where
  "example_dmm_devc entry =
     \<lparr>devc_num_channels = num_channels entry, devc_cmdset = cmdset entry,
      devc_model = entry, precision = None\<rparr>"

definition example_scpi :: sr_scpi_dev_inst where
  "example_scpi = \<lparr>sent = [], no_opc_command = False, scpi_read_timeout_us = 1000000\<rparr>"

definition example_dmm_sdi :: "scpi_dmm_model \<Rightarrow> dmm_dev_inst" where
  "example_dmm_sdi entry =
     \<lparr>sdi_vendor = vendor entry, sdi_model = model entry, sdi_version = ''1.0'',
      sdi_serial_num = ''0001'', connection_id = Some ''usbtmc/1.2'', channels = [''P1''],
      conn = Some example_scpi, dmm_priv = example_dmm_devc entry, status = 10003,
      source_registered = True, feed = []\<rparr>"


section \<open>Properties of the register-protocol driver\<close>

subsection \<open>Auxiliary facts\<close>

lemma find_triggerpin_lowest:
  "bit m k \<Longrightarrow> k < 8 \<Longrightarrow> i \<le> k \<Longrightarrow> (\<forall>j. i \<le> j \<and> j < k \<longrightarrow> \<not> bit m j)
     \<Longrightarrow> find_triggerpin m i = k"
proof (induction m i rule: find_triggerpin.induct)
  case (1 masks triggerpin)
  show ?case
  proof (cases "triggerpin = k")
    case True
    with 1 show ?thesis
      by (subst find_triggerpin.simps) (simp add: and_exp_eq_0_iff_not_bit)
  next
    case False
    with 1 have lt: "triggerpin < k" by simp
    with 1 have nb: "\<not> bit masks triggerpin" by simp
    from lt 1 have "find_triggerpin masks (triggerpin + 1) = k"
      by (intro "1.IH") (auto simp: and_exp_eq_0_iff_not_bit)
    with lt nb 1 show ?thesis
      by (subst find_triggerpin.simps) (simp add: and_exp_eq_0_iff_not_bit)
  qed
qed

lemma find_triggerpin_of_lowest_set_bit:
  "lowest_set_bit m k \<Longrightarrow> k < 8 \<Longrightarrow> find_triggerpin m 0 = k"
  by (rule find_triggerpin_lowest) (simp_all add: lowest_set_bit_def)

lemma lowest_set_bit_upt:
  "lowest_set_bit m k \<longleftrightarrow> bit m k \<and> (\<forall>j \<in> set [0..<k]. \<not> bit m j)"
  by (auto simp: lowest_set_bit_def)

lemma pin_field:
  assumes "k < 8" "3 < L" "L < 8"
  shows "((push_bit L 1 OR (word_of_nat k AND 7)) :: 8 word) AND 7 = word_of_nat k"
    and "(((push_bit L 1 OR (word_of_nat k AND 7)) OR push_bit 3 1) :: 8 word) AND 7
           = word_of_nat k"
    and "\<not> bit ((push_bit L 1 OR (word_of_nat k AND 7)) :: 8 word) 3"
    and "bit (((push_bit L 1 OR (word_of_nat k AND 7)) OR push_bit 3 1) :: 8 word) 3"
    and "bit ((push_bit L 1 OR (word_of_nat k AND 7)) :: 8 word) L"
    and "bit (((push_bit L 1 OR (word_of_nat k AND 7)) OR push_bit 3 1) :: 8 word) L"
    and "unat (word_of_nat k :: 8 word) = k"
proof -
  from assms have "k = 0 \<or> k = 1 \<or> k = 2 \<or> k = 3 \<or> k = 4 \<or> k = 5 \<or> k = 6 \<or> k = 7"
    and "L = 4 \<or> L = 5 \<or> L = 6 \<or> L = 7" by arith+
  then show "((push_bit L 1 OR (word_of_nat k AND 7)) :: 8 word) AND 7 = word_of_nat k"
    and "(((push_bit L 1 OR (word_of_nat k AND 7)) OR push_bit 3 1) :: 8 word) AND 7
           = word_of_nat k"
    and "\<not> bit ((push_bit L 1 OR (word_of_nat k AND 7)) :: 8 word) 3"
    and "bit (((push_bit L 1 OR (word_of_nat k AND 7)) OR push_bit 3 1) :: 8 word) 3"
    and "bit ((push_bit L 1 OR (word_of_nat k AND 7)) :: 8 word) L"
    and "bit (((push_bit L 1 OR (word_of_nat k AND 7)) OR push_bit 3 1) :: 8 word) L"
    and "unat (word_of_nat k :: 8 word) = k"
    by (elim disjE; simp)+
qed

lemma post_trigger_floor:
  assumes "ratio \<le> 100"
  shows "unat (post_trigger_of ratio) = (unat ratio * 255) div 100"
proof -
  from assms have r: "unat ratio \<le> 100" by (simp add: word_le_nat_alt)
  then have m: "unat (ratio * 255) = unat ratio * 255"
    by (simp add: unat_word_ariths)
  have d: "unat ((ratio * 255) div 100) = unat ratio * 255 div 100"
    by (simp add: unat_div m)
  from r have "unat ratio * 255 div 100 < 256" by simp
  with d show ?thesis
    by (simp add: post_trigger_of_def unsigned_ucast_eq take_bit_nat_eq_self)
qed

text \<open>
  A start that returns \<open>SR_OK\<close> has passed the three helpers, has a clock-select image,
  leaves the state at \<open>SIGMA_CAPTURE\<close> with the receive routine registered, and has sent
  the trigger set-up followed by the clock-select image, the post-trigger value, the mode
  and the feed header.
\<close>

lemma sigma_start_ok:
  assumes "sigma_dev_acquisition_start hw env sdi = Some (SR_OK, sdi', acts)"
  obtains devc cs where "clockselect_of (samplerate devc) = Some cs"
    and "sdi' = sdi\<lparr>priv := devc\<lparr>state := SIGMA_CAPTURE\<rparr>,
                   session_sources := sr_session_source_add (-1) (session_sources sdi)\<rparr>"
    and "acts = trigger_actions hw devc
                 @ [Write_register WRITE_CLOCK_SELECT (clock_bytes_of cs),
                    Set_register WRITE_POST_TRIGGER (post_trigger_of (capture_ratio devc)),
                    Set_register WRITE_MODE (mode_regval hw),
                    Send_df_header]"
  using assms
  by (auto simp: sigma_dev_acquisition_start_def split: prod.splits if_splits option.splits)

lemma trigger_actions_registers:
  "Set_register WRITE_POST_TRIGGER w \<notin> set (trigger_actions hw devc)"
  "Write_register r bytes \<notin> set (trigger_actions hw devc)"
  by (simp_all add: trigger_actions_def)

lemma clockselect_async: "clockselect_of rate = Some cs \<Longrightarrow> async cs = 0"
  by (auto simp: clockselect_of_def split: if_splits)

lemma example_start:
  "sigma_dev_acquisition_start example_consts example_env example_sdi
     = Some (SR_OK, example_sdi_started, example_start_actions)"
  by (simp add: sigma_dev_acquisition_start_def example_env_def example_sdi_def
      example_devc_def example_consts_def SR_MHZ_def clockselect_of_def trigger_actions_def
      triggerselect_of_def clock_bytes_of_def post_trigger_of_def mode_regval_def
      sr_session_source_add_def example_sdi_started_def example_start_actions_def)

text \<open>
  When the three helpers succeed, the start is determined by the device context that they
  leave: it has no result when the clock-select image has none, and otherwise returns
  \<open>SR_OK\<close> after sending the trigger set-up, the clock-select image, the post-trigger
  value, the mode and the feed header.
\<close>

lemma sigma_start_run:
  assumes "sigma_set_samplerate env (priv sdi) = (SR_OK, d1)"
    and "sigma_set_acquire_timeout env d1 = (SR_OK, d2)"
    and "sigma_convert_trigger env d2 = (SR_OK, devc)"
  shows "sigma_dev_acquisition_start hw env sdi =
     (case clockselect_of (samplerate devc) of
        None \<Rightarrow> None
      | Some cs \<Rightarrow>
          Some (SR_OK,
                sdi\<lparr>priv := devc\<lparr>state := SIGMA_CAPTURE\<rparr>,
                    session_sources := sr_session_source_add (-1) (session_sources sdi)\<rparr>,
                trigger_actions hw devc
                @ [Write_register WRITE_CLOCK_SELECT (clock_bytes_of cs),
                   Set_register WRITE_POST_TRIGGER (post_trigger_of (capture_ratio devc)),
                   Set_register WRITE_MODE (mode_regval hw),
                   Send_df_header]))"
  using assms by (simp add: sigma_dev_acquisition_start_def)

lemma set_register_values_append:
  "set_register_values r (xs @ ys) = set_register_values r xs @ set_register_values r ys"
  by (induction r xs rule: set_register_values.induct) simp_all

lemma write_register_images_append:
  "write_register_images r (xs @ ys) = write_register_images r xs @ write_register_images r ys"
  by (induction r xs rule: write_register_images.induct) simp_all

lemma trigger_actions_writes:
  "write_register_images r (trigger_actions hw devc) = []"
  "set_register_values WRITE_POST_TRIGGER (trigger_actions hw devc) = []"
  "SR_MHZ 100 \<le> samplerate devc \<Longrightarrow>
     set_register_values WRITE_TRIGGER_SELECT2 (trigger_actions hw devc)
       = [0x20, 0x81, triggerselect_of hw devc]"
  by (simp_all add: trigger_actions_def)

lemma clockselect_of_Some: "rate \<noteq> 0 \<Longrightarrow> \<exists>cs. clockselect_of rate = Some cs"
  by (simp add: clockselect_of_def)

lemma start_clock_image:
  assumes "sigma_set_samplerate env (priv sdi) = (SR_OK, d1)"
    and "sigma_set_acquire_timeout env d1 = (SR_OK, d2)"
    and "sigma_convert_trigger env d2 = (SR_OK, devc)"
    and "clockselect_of (samplerate devc) = Some cs"
  shows "\<exists>sdi' acts. sigma_dev_acquisition_start hw env sdi = Some (SR_OK, sdi', acts)
           \<and> write_register_images WRITE_CLOCK_SELECT acts = [clock_bytes_of cs]
           \<and> set_register_values WRITE_POST_TRIGGER acts
               = [post_trigger_of (capture_ratio devc)]"
  using sigma_start_run [OF assms(1-3), of hw] assms(4)
  by (simp add: write_register_images_append set_register_values_append trigger_actions_writes)

lemma example_env_helpers:
  "sigma_set_samplerate example_env d = (SR_OK, d)"
  "sigma_set_acquire_timeout example_env d = (SR_OK, d)"
  "sigma_convert_trigger example_env d = (SR_OK, d)"
  by (simp_all add: example_env_def)

lemma example_sdi_at_fields:
  "samplerate (priv (example_sdi_at rate ratio rising falling)) = rate"
  "capture_ratio (priv (example_sdi_at rate ratio rising falling)) = ratio"
  "risingmask (trigger (priv (example_sdi_at rate ratio rising falling))) = rising"
  "fallingmask (trigger (priv (example_sdi_at rate ratio rising falling))) = falling"
  by (simp_all add: example_sdi_at_def)

subsection \<open>The two-phase stop\<close>

text \<open>
  C1. A stop request while the state is \<open>SIGMA_CAPTURE\<close> moves the state to
  \<open>SIGMA_STOPPING\<close> and leaves the session's sources, and so the registration of the
  receive routine, as they were. In every other state the stop request sets the state to
  \<open>SIGMA_IDLE\<close> and takes the receive routine out of the session's sources; when the
  state was \<open>SIGMA_IDLE\<close> already, nothing but the source list can change. The request
  returns \<open>SR_OK\<close> in all cases.
\<close>

theorem sigma_stop_two_phase:
  "fst (sigma_dev_acquisition_stop sdi) = SR_OK
   \<and> (state (priv sdi) = SIGMA_CAPTURE \<longrightarrow>
        state (priv (snd (sigma_dev_acquisition_stop sdi))) = SIGMA_STOPPING
        \<and> session_sources (snd (sigma_dev_acquisition_stop sdi)) = session_sources sdi
        \<and> receive_registered (snd (sigma_dev_acquisition_stop sdi)) = receive_registered sdi)
   \<and> (state (priv sdi) \<noteq> SIGMA_CAPTURE \<longrightarrow>
        state (priv (snd (sigma_dev_acquisition_stop sdi))) = SIGMA_IDLE
        \<and> \<not> receive_registered (snd (sigma_dev_acquisition_stop sdi)))
   \<and> (state (priv sdi) = SIGMA_IDLE \<longrightarrow>
        priv (snd (sigma_dev_acquisition_stop sdi)) = priv sdi)"
  by (simp add: sigma_dev_acquisition_stop_def receive_registered_def
      sr_session_source_remove_def)

text \<open>
  The stop request on the started example keeps the receive routine; on the idle example
  it changes nothing.
\<close>

theorem sigma_stop_two_phase_witness:
  "state (priv example_sdi_started) = SIGMA_CAPTURE
   \<and> state (priv (snd (sigma_dev_acquisition_stop example_sdi_started))) = SIGMA_STOPPING
   \<and> receive_registered (snd (sigma_dev_acquisition_stop example_sdi_started))
   \<and> state (priv example_sdi) = SIGMA_IDLE
   \<and> sigma_dev_acquisition_stop example_sdi = (SR_OK, example_sdi)"
proof -
  have c: "state (priv example_sdi_started) = SIGMA_CAPTURE"
    and r: "receive_registered example_sdi_started"
    by (simp_all add: example_sdi_started_def receive_registered_def)
  have i: "state (priv example_sdi) = SIGMA_IDLE"
    by (simp add: example_sdi_def example_devc_def)
  have "sigma_dev_acquisition_stop example_sdi = (SR_OK, example_sdi)"
    by (simp add: sigma_dev_acquisition_stop_def example_sdi_def example_devc_def
        sr_session_source_remove_def)
  with sigma_stop_two_phase [of example_sdi_started] sigma_stop_two_phase [of example_sdi] c r i
  show ?thesis by simp
qed

subsection \<open>The trigger-select byte in the 100 and 200 MHz modes\<close>

lemma triggerselect_of_single_pin:
  assumes "SR_MHZ 100 \<le> samplerate devc"
    and "lowest_set_bit (risingmask (trigger devc) OR fallingmask (trigger devc)) k"
    and "k < 8"
    and "3 < LEDSEL1 hw" and "LEDSEL1 hw < 8"
  shows "unat (triggerselect_of hw devc AND 7) = k
    \<and> (bit (triggerselect_of hw devc) 3 \<longleftrightarrow> fallingmask (trigger devc) \<noteq> 0)
    \<and> bit (triggerselect_of hw devc) (LEDSEL1 hw)"
proof -
  from assms(2,3)
  have pin: "find_triggerpin (risingmask (trigger devc) OR fallingmask (trigger devc)) 0 = k"
    by (rule find_triggerpin_of_lowest_set_bit)
  show ?thesis
  proof (cases "fallingmask (trigger devc) = 0")
    case True
    with assms(1) pin
    have "triggerselect_of hw devc = push_bit (LEDSEL1 hw) 1 OR (word_of_nat k AND 7)"
      by (simp add: triggerselect_of_def del: push_bit_of_1)
    with True pin_field [OF assms(3,4,5)] show ?thesis by simp
  next
    case False
    with assms(1) pin
    have "triggerselect_of hw devc
            = (push_bit (LEDSEL1 hw) 1 OR (word_of_nat k AND 7)) OR push_bit 3 1"
      by (simp add: triggerselect_of_def del: push_bit_of_1)
    with False pin_field [OF assms(3,4,5)] show ?thesis by simp
  qed
qed

text \<open>
  C3, as the code has it. Let the three helpers succeed and leave a device context with a
  sample rate of 100 MHz or more, in which the lowest set bit of the combined rising and
  falling mask is channel \<open>k\<close>, one of the eight pins 0 to 7 that the scan covers. Then
  the start returns \<open>SR_OK\<close> and sets the trigger-select register three times: to
  \<open>0x20\<close>, to \<open>0x81\<close>, and last to a byte whose low three bits are \<open>k\<close>, whatever
  other bits the masks have, whose bit 3 is set exactly when the falling mask is not
  zero, and whose bit \<open>LEDSEL1\<close> is set. \<open>LEDSEL1\<close> is taken to lie above the pin and
  edge bits, within the byte.
\<close>

theorem start_triggerselect_single_pin:
  assumes "sigma_set_samplerate env (priv sdi) = (SR_OK, d1)"
    and "sigma_set_acquire_timeout env d1 = (SR_OK, d2)"
    and "sigma_convert_trigger env d2 = (SR_OK, devc)"
    and "SR_MHZ 100 \<le> samplerate devc"
    and "lowest_set_bit (risingmask (trigger devc) OR fallingmask (trigger devc)) k"
    and "k < 8"
    and "3 < LEDSEL1 hw" and "LEDSEL1 hw < 8"
  shows "\<exists>sdi' acts b.
           sigma_dev_acquisition_start hw env sdi = Some (SR_OK, sdi', acts)
           \<and> set_register_values WRITE_TRIGGER_SELECT2 acts = [0x20, 0x81, b]
           \<and> unat (b AND 7) = k
           \<and> (bit b 3 \<longleftrightarrow> fallingmask (trigger devc) \<noteq> 0)
           \<and> bit b (LEDSEL1 hw)"
proof -
  have "SR_MHZ 100 \<noteq> 0" by (simp add: SR_MHZ_def)
  with assms(4) have "samplerate devc \<noteq> 0" by auto
  then obtain cs where cs: "clockselect_of (samplerate devc) = Some cs"
    using clockselect_of_Some by blast
  let ?acts = "trigger_actions hw devc
                @ [Write_register WRITE_CLOCK_SELECT (clock_bytes_of cs),
                   Set_register WRITE_POST_TRIGGER (post_trigger_of (capture_ratio devc)),
                   Set_register WRITE_MODE (mode_regval hw),
                   Send_df_header]"
  from sigma_start_run [OF assms(1-3)] cs
  have run: "sigma_dev_acquisition_start hw env sdi =
               Some (SR_OK,
                     sdi\<lparr>priv := devc\<lparr>state := SIGMA_CAPTURE\<rparr>,
                         session_sources := sr_session_source_add (-1) (session_sources sdi)\<rparr>,
                     ?acts)"
    by simp
  from assms(4)
  have sel: "set_register_values WRITE_TRIGGER_SELECT2 ?acts
               = [0x20, 0x81, triggerselect_of hw devc]"
    by (simp add: set_register_values_append trigger_actions_writes)
  from run sel triggerselect_of_single_pin [OF assms(4-8)] show ?thesis by blast
qed

text \<open>
  Rising edges on channels 2 and 4 and a falling edge on channel 6, at 200 MHz: pin 2,
  falling flag set, LED bit set; the byte is \<open>0x8A\<close>.
\<close>

theorem start_triggerselect_single_pin_witness:
  "sigma_set_samplerate example_env (priv (example_sdi_at (SR_MHZ 200) 50 0x14 0x40))
     = (SR_OK, priv (example_sdi_at (SR_MHZ 200) 50 0x14 0x40))
   \<and> SR_MHZ 100 \<le> samplerate (priv (example_sdi_at (SR_MHZ 200) 50 0x14 0x40))
   \<and> lowest_set_bit (0x14 OR 0x40) 2
   \<and> (\<exists>sdi' acts b.
         sigma_dev_acquisition_start example_consts example_env
             (example_sdi_at (SR_MHZ 200) 50 0x14 0x40) = Some (SR_OK, sdi', acts)
         \<and> set_register_values WRITE_TRIGGER_SELECT2 acts = [0x20, 0x81, b]
         \<and> unat (b AND 7) = 2 \<and> bit b 3 \<and> bit b 7)
   \<and> sigma_start_set_values example_consts example_env
         (example_sdi_at (SR_MHZ 200) 50 0x14 0x40) WRITE_TRIGGER_SELECT2
       = Some (SR_OK, [0x20, 0x81, 0x8A])"
proof -
  let ?sdi = "example_sdi_at (SR_MHZ 200) 50 0x14 0x40"
  have h4: "SR_MHZ 100 \<le> samplerate (priv ?sdi)"
    by (simp add: example_sdi_at_fields SR_MHZ_def)
  have l: "lowest_set_bit (0x14 OR 0x40) 2"
    by (simp add: lowest_set_bit_upt upt_rec)
  then have h5: "lowest_set_bit (risingmask (trigger (priv ?sdi))
                                 OR fallingmask (trigger (priv ?sdi))) 2"
    by (simp add: example_sdi_at_fields)
  have h6: "(2::nat) < 8" by simp
  have h7: "3 < LEDSEL1 example_consts" and h8: "LEDSEL1 example_consts < 8"
    and led: "LEDSEL1 example_consts = 7"
    by (simp_all add: example_consts_def)
  have f: "fallingmask (trigger (priv ?sdi)) \<noteq> 0" by (simp add: example_sdi_at_fields)
  have ev: "sigma_start_set_values example_consts example_env ?sdi WRITE_TRIGGER_SELECT2
              = Some (SR_OK, [0x20, 0x81, 0x8A])"
    by (simp add: sigma_start_set_values_def sigma_dev_acquisition_start_def example_env_def
        example_sdi_at_def example_consts_def SR_MHZ_def clockselect_of_def trigger_actions_def
        triggerselect_of_def find_triggerpin.simps)
  from start_triggerselect_single_pin
         [OF example_env_helpers(1) example_env_helpers(2) example_env_helpers(3) h4 h5 h6 h7 h8]
       example_env_helpers(1) h4 l f led ev
  show ?thesis by simp
qed

text \<open>
  The statement without the bound on \<open>k\<close> fails: with a rising edge on channel 8 alone
  at 100 MHz the scan ends at 8, the pin field is 8 cut to three bits, and the byte that
  the start sets last is \<open>0x80\<close>, which selects pin 0.
\<close>

theorem triggerselect_pin_counterexample:
  "SR_MHZ 100 \<le> samplerate (example_devc (SR_MHZ 100) 0x0100 0)
   \<and> lowest_set_bit (risingmask (trigger (example_devc (SR_MHZ 100) 0x0100 0))
                      OR fallingmask (trigger (example_devc (SR_MHZ 100) 0x0100 0))) 8
   \<and> triggerselect_of example_consts (example_devc (SR_MHZ 100) 0x0100 0) = 0x80
   \<and> unat (triggerselect_of example_consts (example_devc (SR_MHZ 100) 0x0100 0) AND 7) \<noteq> 8
   \<and> priv (example_sdi_at (SR_MHZ 100) 50 0x0100 0) = example_devc (SR_MHZ 100) 0x0100 0
   \<and> sigma_start_set_values example_consts example_env
         (example_sdi_at (SR_MHZ 100) 50 0x0100 0) WRITE_TRIGGER_SELECT2
       = Some (SR_OK, [0x20, 0x81, 0x80])
   \<and> unat ((0x80 :: 8 word) AND 7) \<noteq> 8"
  by (simp add: example_devc_def SR_MHZ_def lowest_set_bit_upt upt_rec triggerselect_of_def
      example_consts_def find_triggerpin.simps sigma_start_set_values_def
      sigma_dev_acquisition_start_def example_env_def example_sdi_at_def clockselect_of_def
      trigger_actions_def)

subsection \<open>The clock-select register\<close>

lemma disable_mask_of_clock_bytes:
  "disable_mask_of_image (clock_bytes_of cs) = disabled_channels cs"
proof -
  have m: "(0xff :: 16 word) = mask 8" by (simp add: mask_eq_exp_minus_1)
  show ?thesis
    unfolding disable_mask_of_image_def clock_bytes_of_def m
    by (rule bit_word_eqI) (auto simp: bit_simps not_le)
qed

lemma clockselect_of_masks:
  "(rate = SR_MHZ 200 \<longrightarrow>
      (\<exists>cs. clockselect_of rate = Some cs \<and> disabled_channels cs = 0xf0ff))
   \<and> (rate = SR_MHZ 100 \<longrightarrow>
      (\<exists>cs. clockselect_of rate = Some cs \<and> disabled_channels cs = 0x00ff))
   \<and> (rate \<le> SR_MHZ 50 \<and> rate \<noteq> 0 \<longrightarrow>
      (\<exists>cs. clockselect_of rate = Some cs \<and> disabled_channels cs = 0x0000))
   \<and> (rate = 0 \<longrightarrow> clockselect_of rate = None)"
proof -
  have ne: "rate \<le> SR_MHZ 50 \<Longrightarrow> rate \<noteq> SR_MHZ 200 \<and> rate \<noteq> SR_MHZ 100"
    by (auto simp: SR_MHZ_def)
  show ?thesis
    using ne by (auto simp: clockselect_of_def SR_MHZ_def)
qed

lemma enabled_channel_counts:
  "enabled_channel_count 0xf0ff = 4" "enabled_channel_count 0x00ff = 8"
  "enabled_channel_count 0 = 16"
  by (simp_all add: enabled_channel_count_def upt_rec)

text \<open>
  C4. Let the three helpers succeed. The start then returns \<open>SR_OK\<close> and writes one
  clock-select image, whose disable mask is \<open>0xf0ff\<close> when the sample rate is 200 MHz,
  which leaves 4 of the 16 channels enabled, \<open>0x00ff\<close> when it is 100 MHz, which leaves
  8, and \<open>0x0000\<close>, all 16 enabled, at every rate up to 50 MHz other than 0. At a rate
  of 0, which is none of the rates that the driver lists, the divider is a division by
  the rate: the start has no result and no image is written.
\<close>

theorem start_clock_select_mask:
  assumes "sigma_set_samplerate env (priv sdi) = (SR_OK, d1)"
    and "sigma_set_acquire_timeout env d1 = (SR_OK, d2)"
    and "sigma_convert_trigger env d2 = (SR_OK, devc)"
  shows "(samplerate devc = SR_MHZ 200 \<longrightarrow>
            (\<exists>sdi' acts bytes.
               sigma_dev_acquisition_start hw env sdi = Some (SR_OK, sdi', acts)
               \<and> write_register_images WRITE_CLOCK_SELECT acts = [bytes]
               \<and> disable_mask_of_image bytes = 0xf0ff
               \<and> enabled_channel_count (disable_mask_of_image bytes) = 4))
       \<and> (samplerate devc = SR_MHZ 100 \<longrightarrow>
            (\<exists>sdi' acts bytes.
               sigma_dev_acquisition_start hw env sdi = Some (SR_OK, sdi', acts)
               \<and> write_register_images WRITE_CLOCK_SELECT acts = [bytes]
               \<and> disable_mask_of_image bytes = 0x00ff
               \<and> enabled_channel_count (disable_mask_of_image bytes) = 8))
       \<and> (samplerate devc \<le> SR_MHZ 50 \<and> samplerate devc \<noteq> 0 \<longrightarrow>
            (\<exists>sdi' acts bytes.
               sigma_dev_acquisition_start hw env sdi = Some (SR_OK, sdi', acts)
               \<and> write_register_images WRITE_CLOCK_SELECT acts = [bytes]
               \<and> disable_mask_of_image bytes = 0x0000
               \<and> enabled_channel_count (disable_mask_of_image bytes) = 16))
       \<and> (samplerate devc = 0 \<longrightarrow> sigma_dev_acquisition_start hw env sdi = None)"
proof -
  have image: "\<exists>sdi' acts bytes.
                 sigma_dev_acquisition_start hw env sdi = Some (SR_OK, sdi', acts)
                 \<and> write_register_images WRITE_CLOCK_SELECT acts = [bytes]
                 \<and> disable_mask_of_image bytes = m
                 \<and> enabled_channel_count (disable_mask_of_image bytes) = n"
    if "clockselect_of (samplerate devc) = Some cs" and "disabled_channels cs = m"
      and "enabled_channel_count m = n" for cs m n
    using start_clock_image [OF assms that(1), of hw] that(2,3)
    by (auto simp: disable_mask_of_clock_bytes)
  have none: "sigma_dev_acquisition_start hw env sdi = None" if "samplerate devc = 0"
    using sigma_start_run [OF assms, of hw] clockselect_of_masks [of "samplerate devc"] that
    by simp
  note masks = clockselect_of_masks [of "samplerate devc"]
  show ?thesis
  proof (intro conjI impI)
    assume "samplerate devc = SR_MHZ 200"
    with masks obtain cs where "clockselect_of (samplerate devc) = Some cs"
      and "disabled_channels cs = 0xf0ff" by blast
    then show "\<exists>sdi' acts bytes.
                 sigma_dev_acquisition_start hw env sdi = Some (SR_OK, sdi', acts)
                 \<and> write_register_images WRITE_CLOCK_SELECT acts = [bytes]
                 \<and> disable_mask_of_image bytes = 0xf0ff
                 \<and> enabled_channel_count (disable_mask_of_image bytes) = 4"
      using enabled_channel_counts(1) by (rule image)
  next
    assume "samplerate devc = SR_MHZ 100"
    with masks obtain cs where "clockselect_of (samplerate devc) = Some cs"
      and "disabled_channels cs = 0x00ff" by blast
    then show "\<exists>sdi' acts bytes.
                 sigma_dev_acquisition_start hw env sdi = Some (SR_OK, sdi', acts)
                 \<and> write_register_images WRITE_CLOCK_SELECT acts = [bytes]
                 \<and> disable_mask_of_image bytes = 0x00ff
                 \<and> enabled_channel_count (disable_mask_of_image bytes) = 8"
      using enabled_channel_counts(2) by (rule image)
  next
    assume "samplerate devc \<le> SR_MHZ 50 \<and> samplerate devc \<noteq> 0"
    with masks obtain cs where "clockselect_of (samplerate devc) = Some cs"
      and "disabled_channels cs = 0x0000" by blast
    then show "\<exists>sdi' acts bytes.
                 sigma_dev_acquisition_start hw env sdi = Some (SR_OK, sdi', acts)
                 \<and> write_register_images WRITE_CLOCK_SELECT acts = [bytes]
                 \<and> disable_mask_of_image bytes = 0x0000
                 \<and> enabled_channel_count (disable_mask_of_image bytes) = 16"
      using enabled_channel_counts(3) by (rule image)
  next
    assume "samplerate devc = 0"
    then show "sigma_dev_acquisition_start hw env sdi = None" by (rule none)
  qed
qed

text \<open>Starts at 25, 200 and 100 MHz, and at a rate of 0.\<close>

theorem start_clock_select_mask_witness:
  "sigma_set_samplerate example_env (priv (example_sdi_at (SR_MHZ 25) 50 0 0))
     = (SR_OK, priv (example_sdi_at (SR_MHZ 25) 50 0 0))
   \<and> SR_MHZ 25 \<le> SR_MHZ 50 \<and> SR_MHZ 25 \<noteq> 0
   \<and> (\<exists>sdi' acts bytes.
         sigma_dev_acquisition_start example_consts example_env
             (example_sdi_at (SR_MHZ 25) 50 0 0) = Some (SR_OK, sdi', acts)
         \<and> write_register_images WRITE_CLOCK_SELECT acts = [bytes]
         \<and> disable_mask_of_image bytes = 0
         \<and> enabled_channel_count (disable_mask_of_image bytes) = 16)
   \<and> (\<exists>sdi' acts bytes.
         sigma_dev_acquisition_start example_consts example_env
             (example_sdi_at (SR_MHZ 200) 50 0 0) = Some (SR_OK, sdi', acts)
         \<and> write_register_images WRITE_CLOCK_SELECT acts = [bytes]
         \<and> disable_mask_of_image bytes = 0xf0ff
         \<and> enabled_channel_count (disable_mask_of_image bytes) = 4)
   \<and> (\<exists>sdi' acts bytes.
         sigma_dev_acquisition_start example_consts example_env
             (example_sdi_at (SR_MHZ 100) 50 0 0) = Some (SR_OK, sdi', acts)
         \<and> write_register_images WRITE_CLOCK_SELECT acts = [bytes]
         \<and> disable_mask_of_image bytes = 0x00ff
         \<and> enabled_channel_count (disable_mask_of_image bytes) = 8)
   \<and> sigma_dev_acquisition_start example_consts example_env (example_sdi_at 0 50 0 0) = None"
proof -
  have r: "SR_MHZ 25 \<le> SR_MHZ 50" "SR_MHZ 25 \<noteq> 0" by (simp_all add: SR_MHZ_def)
  note h = example_env_helpers(1) example_env_helpers(2) example_env_helpers(3)
  from start_clock_select_mask [OF h, of "example_sdi_at (SR_MHZ 25) 50 0 0" example_consts]
       start_clock_select_mask [OF h, of "example_sdi_at (SR_MHZ 200) 50 0 0" example_consts]
       start_clock_select_mask [OF h, of "example_sdi_at (SR_MHZ 100) 50 0 0" example_consts]
       start_clock_select_mask [OF h, of "example_sdi_at 0 50 0 0" example_consts]
       r example_env_helpers(1)
  show ?thesis by (simp add: example_sdi_at_fields)
qed

text \<open>
  C9, as the code has it. A start that succeeds writes the clock-select register once,
  with an image of exactly four bytes in this order: the async flag in a byte of its own
  (always 0), the divider, the low byte of the disable mask, the high byte of the disable
  mask.
\<close>

theorem start_clock_select_image:
  assumes "sigma_dev_acquisition_start hw env sdi = Some (SR_OK, sdi', acts)"
  shows "\<exists>cs. clockselect_of (samplerate (priv sdi')) = Some cs
            \<and> async cs = 0
            \<and> (\<forall>bytes. Write_register WRITE_CLOCK_SELECT bytes \<in> set acts \<longleftrightarrow>
                  bytes = [async cs, fraction cs,
                           ucast (disabled_channels cs AND 0xff),
                           ucast (drop_bit 8 (disabled_channels cs))])"
proof -
  from assms(1) obtain devc cs where
    cs: "clockselect_of (samplerate devc) = Some cs"
    and sdi': "sdi' = sdi\<lparr>priv := devc\<lparr>state := SIGMA_CAPTURE\<rparr>,
                   session_sources := sr_session_source_add (-1) (session_sources sdi)\<rparr>"
    and acts: "acts = trigger_actions hw devc
                 @ [Write_register WRITE_CLOCK_SELECT (clock_bytes_of cs),
                    Set_register WRITE_POST_TRIGGER (post_trigger_of (capture_ratio devc)),
                    Set_register WRITE_MODE (mode_regval hw),
                    Send_df_header]"
    by (rule sigma_start_ok)
  from sdi' cs have "clockselect_of (samplerate (priv sdi')) = Some cs" by simp
  moreover from cs have "async cs = 0" by (rule clockselect_async)
  moreover have "\<forall>bytes. Write_register WRITE_CLOCK_SELECT bytes \<in> set acts \<longleftrightarrow>
                  bytes = [async cs, fraction cs,
                           ucast (disabled_channels cs AND 0xff),
                           ucast (drop_bit 8 (disabled_channels cs))]"
    by (auto simp: acts trigger_actions_registers clock_bytes_of_def)
  ultimately show ?thesis by blast
qed

text \<open>At 25 MHz the divider is 2, written as 1: the image is 0, 1, 0, 0.\<close>

theorem start_clock_select_image_witness:
  "sigma_dev_acquisition_start example_consts example_env example_sdi
     = Some (SR_OK, example_sdi_started, example_start_actions)
   \<and> (\<forall>bytes. Write_register WRITE_CLOCK_SELECT bytes \<in> set example_start_actions
                \<longleftrightarrow> bytes = [0, 1, 0, 0])"
proof -
  have st: "sigma_dev_acquisition_start example_consts example_env example_sdi
              = Some (SR_OK, example_sdi_started, example_start_actions)"
    by (rule example_start)
  have cs: "clockselect_of (samplerate (priv example_sdi_started))
              = Some \<lparr>async = 0, fraction = 1, disabled_channels = 0\<rparr>"
    by (simp add: example_sdi_started_def clockselect_of_def SR_MHZ_def)
  from start_clock_select_image [OF st] cs st show ?thesis by auto
qed

text \<open>
  The order "divider, mask low, mask high" from the first byte on fails: at 200 MHz the
  image is 0, 0, 0xff, 0xf0, so the second byte is the divider 0 and not the low byte
  0xff of the mask, and the third byte is the low byte and not the high byte 0xf0.
\<close>

theorem clock_select_image_counterexample:
  "clockselect_of (SR_MHZ 200) = Some \<lparr>async = 0, fraction = 0, disabled_channels = 0xf0ff\<rparr>
   \<and> clock_bytes_of \<lparr>async = 0, fraction = 0, disabled_channels = 0xf0ff\<rparr> = [0, 0, 0xff, 0xf0]
   \<and> \<not> (clock_bytes_of \<lparr>async = 0, fraction = 0, disabled_channels = 0xf0ff\<rparr> ! 1 = 0xff
         \<and> clock_bytes_of \<lparr>async = 0, fraction = 0, disabled_channels = 0xf0ff\<rparr> ! 2 = 0xf0)"
  by (simp add: clockselect_of_def SR_MHZ_def clock_bytes_of_def)

subsection \<open>The capture ratio and the post-trigger register\<close>

text \<open>
  The driver's own \<open>config_set\<close> stores the capture ratio as it receives it (or, without
  trigger support, does not know the key); the bounds are those of the configure path.
\<close>

lemma sigma_config_set_capture_ratio:
  "sigma_config_set hw env SR_CONF_CAPTURE_RATIO v devc =
     (if ASIX_SIGMA_WITH_TRIGGER hw then (SR_OK, devc\<lparr>capture_ratio := v\<rparr>)
      else (SR_ERR_NA, devc))"
  by (simp add: sigma_config_set_def)

lemma sigma_configure_keeps_ratio_bound:
  assumes "\<forall>key data d. capture_ratio (snd (sr_sw_limits_config_set env key data d))
                          = capture_ratio d"
    and "capture_ratio devc \<le> 100"
  shows "capture_ratio (snd (sigma_configure hw env key data devc)) \<le> 100"
  using assms
  by (cases key)
     (auto simp: sigma_configure_def sigma_config_set_def not_less split: prod.splits)

lemma sigma_configure_all_keeps_ratio_bound:
  assumes "\<forall>key data d. capture_ratio (snd (sr_sw_limits_config_set env key data d))
                          = capture_ratio d"
  shows "capture_ratio devc \<le> 100
           \<Longrightarrow> capture_ratio (sigma_configure_all hw env calls devc) \<le> 100"
proof (induction calls arbitrary: devc)
  case Nil
  then show ?case by simp
next
  case (Cons call calls)
  obtain key data where call: "call = (key, data)" by (cases call)
  from assms Cons.prems
  have "capture_ratio (snd (sigma_configure hw env key data devc)) \<le> 100"
    by (rule sigma_configure_keeps_ratio_bound)
  then show ?case by (simp add: call Cons.IH)
qed

text \<open>
  C5. Configuring the capture ratio, with trigger support compiled in, is rejected with
  the argument error and leaves the device context as it is when the requested value
  exceeds 100, and stores the value and returns \<open>SR_OK\<close> when it does not. So, when
  the software-limits helper leaves the capture ratio alone, a device context whose capture
  ratio is at most 100 keeps that bound through any sequence of configure operations, and
  the post-trigger computation only ever sees a ratio from 0 to 100.
\<close>

theorem configure_capture_ratio_checked:
  "(ASIX_SIGMA_WITH_TRIGGER hw \<and> 100 < v \<longrightarrow>
      sigma_configure hw env SR_CONF_CAPTURE_RATIO v devc = (SR_ERR_ARG, devc))
   \<and> (ASIX_SIGMA_WITH_TRIGGER hw \<and> v \<le> 100 \<longrightarrow>
      sigma_configure hw env SR_CONF_CAPTURE_RATIO v devc
        = (SR_OK, devc\<lparr>capture_ratio := v\<rparr>))
   \<and> ((\<forall>key data d. capture_ratio (snd (sr_sw_limits_config_set env key data d))
                       = capture_ratio d)
       \<and> capture_ratio devc \<le> 100 \<longrightarrow>
      capture_ratio (sigma_configure_all hw env calls devc) \<le> 100)"
proof (intro conjI impI)
  assume "ASIX_SIGMA_WITH_TRIGGER hw \<and> 100 < v"
  then show "sigma_configure hw env SR_CONF_CAPTURE_RATIO v devc = (SR_ERR_ARG, devc)"
    by (simp add: sigma_configure_def sigma_devopts_set_def)
next
  assume "ASIX_SIGMA_WITH_TRIGGER hw \<and> v \<le> 100"
  then show "sigma_configure hw env SR_CONF_CAPTURE_RATIO v devc
               = (SR_OK, devc\<lparr>capture_ratio := v\<rparr>)"
    by (simp add: sigma_configure_def sigma_devopts_set_def sigma_config_set_def not_less)
next
  assume "(\<forall>key data d. capture_ratio (snd (sr_sw_limits_config_set env key data d))
                          = capture_ratio d)
          \<and> capture_ratio devc \<le> 100"
  then show "capture_ratio (sigma_configure_all hw env calls devc) \<le> 100"
    using sigma_configure_all_keeps_ratio_bound by blast
qed

text \<open>
  A request of 101 is rejected, one of 100 is stored, and after a sequence of operations
  that asks for 300 and then for 30 the ratio is within the bound.
\<close>

theorem configure_capture_ratio_checked_witness:
  "ASIX_SIGMA_WITH_TRIGGER example_consts
   \<and> sigma_configure example_consts example_env SR_CONF_CAPTURE_RATIO 101
         (example_devc (SR_MHZ 50) 0 0)
       = (SR_ERR_ARG, example_devc (SR_MHZ 50) 0 0)
   \<and> sigma_configure example_consts example_env SR_CONF_CAPTURE_RATIO 100
         (example_devc (SR_MHZ 50) 0 0)
       = (SR_OK, (example_devc (SR_MHZ 50) 0 0)\<lparr>capture_ratio := 100\<rparr>)
   \<and> capture_ratio (example_devc (SR_MHZ 50) 0 0) \<le> 100
   \<and> capture_ratio
         (sigma_configure_all example_consts example_env
            [(SR_CONF_CAPTURE_RATIO, 300), (SR_CONF_SAMPLERATE, 25000000),
             (SR_CONF_CAPTURE_RATIO, 30), (SR_CONF_LIMIT_SAMPLES, 1000)]
            (example_devc (SR_MHZ 50) 0 0)) \<le> 100"
proof -
  have t: "ASIX_SIGMA_WITH_TRIGGER example_consts" by (simp add: example_consts_def)
  have l: "\<forall>key data d. capture_ratio (snd (sr_sw_limits_config_set example_env key data d))
                          = capture_ratio d"
    by (simp add: example_env_def)
  have c: "capture_ratio (example_devc (SR_MHZ 50) 0 0) \<le> 100"
    by (simp add: example_devc_def)
  from configure_capture_ratio_checked
         [of example_consts 101 example_env "example_devc (SR_MHZ 50) 0 0"
             "[(SR_CONF_CAPTURE_RATIO, 300), (SR_CONF_SAMPLERATE, 25000000),
               (SR_CONF_CAPTURE_RATIO, 30), (SR_CONF_LIMIT_SAMPLES, 1000)]"]
       configure_capture_ratio_checked
         [of example_consts 100 example_env "example_devc (SR_MHZ 50) 0 0" "[]"]
       t l c
  show ?thesis by simp
qed

text \<open>
  C10. Let the three helpers succeed and leave a device context with a sample rate other
  than 0 and a capture ratio \<open>r\<close> of at most 100. Then the start returns \<open>SR_OK\<close> and
  sets the post-trigger register once, to \<open>r * 255 div 100\<close> in exact arithmetic:
  neither the 64-bit product nor the cut to eight bits loses anything. For \<open>r\<close> = 0, 50
  and 100 the value is 0, 127 and 255.
\<close>

theorem start_post_trigger_value:
  assumes "sigma_set_samplerate env (priv sdi) = (SR_OK, d1)"
    and "sigma_set_acquire_timeout env d1 = (SR_OK, d2)"
    and "sigma_convert_trigger env d2 = (SR_OK, devc)"
    and "samplerate devc \<noteq> 0"
    and "capture_ratio devc \<le> 100"
  shows "\<exists>sdi' acts v.
           sigma_dev_acquisition_start hw env sdi = Some (SR_OK, sdi', acts)
           \<and> set_register_values WRITE_POST_TRIGGER acts = [v]
           \<and> unat v = unat (capture_ratio devc) * 255 div 100
           \<and> (capture_ratio devc = 0 \<longrightarrow> v = 0)
           \<and> (capture_ratio devc = 50 \<longrightarrow> v = 127)
           \<and> (capture_ratio devc = 100 \<longrightarrow> v = 255)"
proof -
  from assms(4) obtain cs where cs: "clockselect_of (samplerate devc) = Some cs"
    using clockselect_of_Some by blast
  from start_clock_image [OF assms(1-3) cs, of hw]
  obtain sdi' acts where
    run: "sigma_dev_acquisition_start hw env sdi = Some (SR_OK, sdi', acts)"
    and v: "set_register_values WRITE_POST_TRIGGER acts = [post_trigger_of (capture_ratio devc)]"
    by blast
  from assms(5) have fl: "unat (post_trigger_of (capture_ratio devc))
      = unat (capture_ratio devc) * 255 div 100"
    by (rule post_trigger_floor)
  have "post_trigger_of 0 = 0" "post_trigger_of 50 = 127" "post_trigger_of 100 = 255"
    by (simp_all add: post_trigger_of_def)
  with run v fl show ?thesis by auto
qed

text \<open>Starts with the capture ratios 30, 0, 50 and 100: the values are 76, 0, 127, 255.\<close>

theorem start_post_trigger_value_witness:
  "sigma_set_samplerate example_env (priv (example_sdi_at (SR_MHZ 25) 30 0 0))
     = (SR_OK, priv (example_sdi_at (SR_MHZ 25) 30 0 0))
   \<and> SR_MHZ 25 \<noteq> 0 \<and> (30 :: 64 word) \<le> 100
   \<and> (\<exists>sdi' acts.
         sigma_dev_acquisition_start example_consts example_env
             (example_sdi_at (SR_MHZ 25) 30 0 0) = Some (SR_OK, sdi', acts)
         \<and> set_register_values WRITE_POST_TRIGGER acts = [76])
   \<and> (\<exists>sdi' acts.
         sigma_dev_acquisition_start example_consts example_env
             (example_sdi_at (SR_MHZ 25) 0 0 0) = Some (SR_OK, sdi', acts)
         \<and> set_register_values WRITE_POST_TRIGGER acts = [0])
   \<and> (\<exists>sdi' acts.
         sigma_dev_acquisition_start example_consts example_env
             (example_sdi_at (SR_MHZ 25) 50 0 0) = Some (SR_OK, sdi', acts)
         \<and> set_register_values WRITE_POST_TRIGGER acts = [127])
   \<and> (\<exists>sdi' acts.
         sigma_dev_acquisition_start example_consts example_env
             (example_sdi_at (SR_MHZ 25) 100 0 0) = Some (SR_OK, sdi', acts)
         \<and> set_register_values WRITE_POST_TRIGGER acts = [255])"
proof -
  have r: "SR_MHZ 25 \<noteq> 0" by (simp add: SR_MHZ_def)
  note h = example_env_helpers(1) example_env_helpers(2) example_env_helpers(3)
  have rate: "\<And>ratio. samplerate (priv (example_sdi_at (SR_MHZ 25) ratio 0 0)) \<noteq> 0"
    using r by (simp add: example_sdi_at_fields)
  have le: "capture_ratio (priv (example_sdi_at (SR_MHZ 25) 30 0 0)) \<le> 100"
    "capture_ratio (priv (example_sdi_at (SR_MHZ 25) 0 0 0)) \<le> 100"
    "capture_ratio (priv (example_sdi_at (SR_MHZ 25) 50 0 0)) \<le> 100"
    "capture_ratio (priv (example_sdi_at (SR_MHZ 25) 100 0 0)) \<le> 100"
    by (simp_all add: example_sdi_at_fields)
  have v30: "v = 76" if "unat v = 76" for v :: "8 word"
  proof -
    from that have "unat v = unat (76 :: 8 word)" by simp
    then show ?thesis by (simp only: word_unat_eq_iff)
  qed
  from start_post_trigger_value [OF h rate le(1), of example_consts]
  have a: "\<exists>sdi' acts.
         sigma_dev_acquisition_start example_consts example_env
             (example_sdi_at (SR_MHZ 25) 30 0 0) = Some (SR_OK, sdi', acts)
         \<and> set_register_values WRITE_POST_TRIGGER acts = [76]"
    by (auto simp: example_sdi_at_fields dest: v30)
  from start_post_trigger_value [OF h rate le(2), of example_consts]
       start_post_trigger_value [OF h rate le(3), of example_consts]
       start_post_trigger_value [OF h rate le(4), of example_consts]
       a r example_env_helpers(1)
  show ?thesis by (auto simp: example_sdi_at_fields)
qed


section \<open>Properties of the command-set driver\<close>

subsection \<open>Auxiliary facts\<close>

lemma model_keithley_dmm6500_tables:
  "vendor model_keithley_dmm6500 = ''KEITHLEY INSTRUMENTS''"
  "model model_keithley_dmm6500 = ''MODEL DMM6500''"
  "cmdset model_keithley_dmm6500 = cmdset_keithley"
  "mqopts model_keithley_dmm6500 = mqopts_keithley_dmm6500"
  "rangeopts model_keithley_dmm6500 = rangeopts_keithley_dmm6500"
  "nplcopts model_keithley_dmm6500 = nplcopts_keithley_dmm6500"
  by (simp_all add: model_keithley_dmm6500_def models_def dmm_model_def)

lemma model_agilent_34405a_tables:
  "vendor model_agilent_34405a = ''Agilent''"
  "model model_agilent_34405a = ''34405A''"
  "cmdset model_agilent_34405a = cmdset_agilent"
  "read_timeout_us model_agilent_34405a = 0"
  by (simp_all add: model_agilent_34405a_def models_def dmm_model_def)

lemma model_owon_xdm2041_tables:
  "vendor model_owon_xdm2041 = ''OWON''"
  "model model_owon_xdm2041 = ''XDM2041''"
  "cmdset model_owon_xdm2041 = cmdset_owon"
  by (simp_all add: model_owon_xdm2041_def models_def dmm_model_def)

lemma send_absent:
  "\<not> command_present command \<Longrightarrow> send_command_if_present command scpi = scpi"
  by (auto simp: command_present_def send_command_if_present_def split: option.splits)

lemma send_present:
  "command = Some text \<Longrightarrow> text \<noteq> [] \<Longrightarrow>
     send_command_if_present command scpi = scpi\<lparr>sent := sent scpi @ [text]\<rparr>"
  by (simp add: send_command_if_present_def)

lemma cmd_get_omitted:
  "command \<notin> fst ` set cmdtable \<Longrightarrow> sr_scpi_cmd_get cmdtable command = None"
  by (induction cmdtable) auto

lemma nplc_entry_None:
  "nplc_entry table q f = None
     \<longleftrightarrow> (q, f) \<notin> set (map (\<lambda>e. (nplc_mq e, nplc_mqflag e)) table)"
  unfolding nplc_entry_def by (induction table) auto

subsection \<open>Range query with a reply that the table does not list\<close>

text \<open>
  When the quantity has no fixed range and the reply to the range query is the wire text
  of no entry for the quantity, the second loop ends without assigning \<open>range_str\<close>; the
  function makes the variant from the unassigned pointer and returns \<open>SR_OK\<close>.
\<close>

lemma config_get_range_no_match:
  assumes "scpi_dmm_get_mq env = (SR_OK, q, f)"
    and "\<forall>r \<in> set (rangeopts (devc_model devc)).
           \<not> (range_mq r = q \<and> range_mqflag r = f \<and> scpi_range r = [])"
    and "scpi_dmm_get_range_auto env q f = (SR_OK, None)"
    and "scpi_dmm_get_range env q f = (SR_OK, reply)"
    and "\<forall>r \<in> set (rangeopts (devc_model devc)).
           \<not> (range_mq r = q \<and> range_mqflag r = f \<and> Some (scpi_range r) = reply)"
  shows "dmm_config_get_range env devc = (SR_OK, Some G_variant_string_of_unassigned_pointer)"
proof -
  from assms(2)
  have fixed: "find (\<lambda>r. range_mq r = q \<and> range_mqflag r = f \<and> scpi_range r = [])
                 (rangeopts (devc_model devc)) = None"
    by (simp add: find_None_iff)
  from assms(5)
  have listed: "find (\<lambda>r. range_mq r = q \<and> range_mqflag r = f \<and> Some (scpi_range r) = reply)
                  (rangeopts (devc_model devc)) = None"
    by (simp add: find_None_iff)
  from assms(1,3,4) fixed listed show ?thesis
    by (simp add: dmm_config_get_range_def)
qed

text \<open>
  C2. The specification asks that a reply to the range query which matches no entry of
  the range table makes the lookup fail with an error. \<open>config_get\<close> does not do so: for
  the DMM6500 measuring DC voltage, with auto-ranging not reported and the reply \<open>2\<close> to
  the range query, it returns \<open>SR_OK\<close> with a variant made from the unassigned
  \<open>range_str\<close>. (The reply \<open>10\<close> gives the label \<open>10V\<close>, and so does the diode test with
  its fixed range, whatever the reply.)
\<close>

theorem config_get_range_unmatched_reply:
  "dmm_config_get_range (example_dmm_env SR_MQ_VOLTAGE {SR_MQFLAG_DC} None (Some ''2''))
       (example_dmm_devc model_keithley_dmm6500)
     = (SR_OK, Some G_variant_string_of_unassigned_pointer)
   \<and> dmm_config_get_range (example_dmm_env SR_MQ_VOLTAGE {SR_MQFLAG_DC} None (Some ''10''))
       (example_dmm_devc model_keithley_dmm6500)
     = (SR_OK, Some (G_variant_string ''10V''))
   \<and> dmm_config_get_range
       (example_dmm_env SR_MQ_VOLTAGE {SR_MQFLAG_DC, SR_MQFLAG_DIODE} None (Some ''2''))
       (example_dmm_devc model_keithley_dmm6500)
     = (SR_OK, Some (G_variant_string ''10V''))"
  by (simp add: dmm_config_get_range_def example_dmm_env_def example_dmm_devc_def
      model_keithley_dmm6500_tables rangeopts_keithley_dmm6500_def rangeopt_def)

subsection \<open>Uniqueness of the quantities in the option tables\<close>

lemma mq_pairs_distinct:
  "distinct (mq_pairs mqopts_agilent_34405a)"
  "distinct (mq_pairs mqopts_agilent_34401a)"
  "distinct (mq_pairs mqopts_gwinstek_gdm906x)"
  "distinct (mq_pairs mqopts_owon_xdm2041)"
  "distinct (mq_pairs mqopts_keithley_dmm6500)"
  by (simp_all add: mq_pairs_def mqopt_def mqopts_agilent_34405a_def mqopts_agilent_34401a_def
      mqopts_gwinstek_gdm906x_def mqopts_owon_xdm2041_def mqopts_keithley_dmm6500_def)

text \<open>
  C6, as the code has it. For every model of the table other than the two of the vendor
  \<open>GW\<close> (GDM8251A and GDM8255A, which share the GDM-8200A table), the pairs of quantity
  and flags in the measurement-quantity table are pairwise different.
\<close>

theorem mqopts_pairs_unique_except_gdm8200a:
  "\<forall>entry \<in> set models. vendor entry \<noteq> ''GW'' \<longrightarrow> distinct (mq_pairs (mqopts entry))"
  by (simp add: models_def dmm_model_def mq_pairs_distinct)

theorem mqopts_pairs_unique_witness:
  "model_keithley_dmm6500 \<in> set models \<and> vendor model_keithley_dmm6500 \<noteq> ''GW''
   \<and> distinct (mq_pairs (mqopts model_keithley_dmm6500))"
proof -
  have m: "model_keithley_dmm6500 \<in> set models"
    by (simp add: model_keithley_dmm6500_def models_def)
  have v: "vendor model_keithley_dmm6500 \<noteq> ''GW''"
    by (simp add: model_keithley_dmm6500_tables)
  from mqopts_pairs_unique_except_gdm8200a [rule_format, OF m v] m v show ?thesis by simp
qed

text \<open>
  For the model GW GDM8251A the pairs are not all different: the GDM-8200A table lists DC
  current twice, at the positions 2 and 4 (the second entry is the mA range).
\<close>

theorem mqopts_pairs_counterexample:
  "models ! 2 \<in> set models
   \<and> vendor (models ! 2) = ''GW'' \<and> model (models ! 2) = ''GDM8251A''
   \<and> mqopts (models ! 2) = mqopts_gwinstek_gdm8200a
   \<and> mq_pairs mqopts_gwinstek_gdm8200a ! 2 = (SR_MQ_CURRENT, {SR_MQFLAG_DC})
   \<and> mq_pairs mqopts_gwinstek_gdm8200a ! 4 = (SR_MQ_CURRENT, {SR_MQFLAG_DC})
   \<and> \<not> distinct (mq_pairs (mqopts (models ! 2)))"
  by (simp add: models_def dmm_model_def mq_pairs_def mqopts_gwinstek_gdm8200a_def mqopt_def)

subsection \<open>Setting the integration time\<close>

text \<open>
  The conversion to a floating-point format at a value whose binade \<open>e\<close> and rounded
  significand \<open>n\<close> are known, and the constants and requests that the examples use.
\<close>

lemma binade_search_eq:
  "power_int 2 e \<le> a \<Longrightarrow> a < power_int 2 (e + 1) \<Longrightarrow> e \<le> s \<Longrightarrow> s - int n \<le> e
     \<Longrightarrow> binade_search n s a = e"
proof (induction n arbitrary: s)
  case 0
  then show ?case by simp
next
  case (Suc n)
  show ?case
  proof (cases "power_int 2 s \<le> a")
    case True
    with Suc.prems(2) have lt: "power_int (2::rat) s < power_int 2 (e + 1)" by simp
    have "\<not> e + 1 \<le> s"
    proof
      assume "e + 1 \<le> s"
      then have "power_int (2::rat) (e + 1) \<le> power_int 2 s"
        by (intro power_int_increasing) auto
      with lt show False by simp
    qed
    with Suc.prems(3) True show ?thesis by simp
  next
    case False
    with Suc.prems(1) have "s \<noteq> e" by auto
    with Suc.prems have "binade_search n (s - 1) a = e"
      by (intro Suc.IH) auto
    with False show ?thesis by simp
  qed
qed

lemma round_half_even_eq:
  assumes "of_int n - 1 / 2 < x" and "x < of_int n + 1 / 2"
  shows "round_half_even x = n"
proof -
  have "\<lfloor>x\<rfloor> = n \<or> \<lfloor>x\<rfloor> = n - 1"
    using assms by (simp add: floor_eq_iff) linarith
  then show ?thesis
  proof
    assume f: "\<lfloor>x\<rfloor> = n"
    then have "x - of_int n < 1 / 2" using assms by simp
    with f show ?thesis by (simp add: round_half_even_def Let_def)
  next
    assume f: "\<lfloor>x\<rfloor> = n - 1"
    then have "1 / 2 < x - of_int (n - 1)" using assms by simp
    with f show ?thesis by (simp add: round_half_even_def Let_def)
  qed
qed

lemma ieee_round_pos:
  assumes "power_int 2 e \<le> r" and "r < power_int 2 (e + 1)"
    and "emin \<le> e" and "e \<le> emax"
    and "(of_int n - 1 / 2) * power_int 2 (e - int p + 1) < r"
    and "r < (of_int n + 1 / 2) * power_int 2 (e - int p + 1)"
    and "(of_int n :: rat) * power_int 2 (e - int p + 1) < power_int 2 (emax + 1)"
  shows "ieee_round p emin emax r = Finite (of_int n * power_int 2 (e - int p + 1))"
proof -
  let ?ulp = "power_int (2::rat) (e - int p + 1)"
  have pos: "0 < ?ulp" by simp
  have "0 < power_int (2::rat) e" by simp
  with assms(1) have r: "0 < r" by linarith
  then have a: "\<bar>r\<bar> = r" by simp
  from assms(1-4) have e: "binade_search (nat (emax - emin)) emax r = e"
    by (intro binade_search_eq) auto
  from assms(5) pos have "of_int n - 1 / 2 < r / ?ulp"
    by (simp add: pos_less_divide_eq)
  moreover from assms(6) pos have "r / ?ulp < of_int n + 1 / 2"
    by (simp add: pos_divide_less_eq)
  ultimately have n: "round_half_even (r / ?ulp) = n" by (rule round_half_even_eq)
  from r have "ieee_round p emin emax r =
      (if power_int 2 (emax + 1) \<le> of_int n * ?ulp then PlusInf else Finite (of_int n * ?ulp))"
    unfolding ieee_round_def Let_def a e n by simp
  with assms(7) show ?thesis by simp
qed

lemma double_constant_0_0005:
  "double_constant 0.0005 = Finite (1152921504606847 / 2 ^ 61)"
  unfolding double_constant_def
  by (rule ieee_round_pos [where e = "-11" and n = 4611686018427388, THEN trans]) simp_all

lemma float_constant_0_0005: "float_constant 0.0005 = Finite (8589935 / 2 ^ 34)"
proof -
  have "ieee_round 24 (-126) 127 (1152921504606847 / 2 ^ 61) = Finite (8589935 / 2 ^ 34)"
    by (rule ieee_round_pos [where e = "-11" and n = 8589935, THEN trans]) simp_all
  then show ?thesis
    by (simp only: float_constant_def double_constant_0_0005 double_to_float_def c_float.case)
qed

lemma float_constant_12: "float_constant 12.0 = Finite 12"
proof -
  have d: "double_constant 12.0 = Finite 12"
    unfolding double_constant_def
    by (rule ieee_round_pos [where e = 3 and n = 6755399441055744, THEN trans]) simp_all
  have "ieee_round 24 (-126) 127 12 = Finite 12"
    by (rule ieee_round_pos [where e = 3 and n = 12582912, THEN trans]) simp_all
  then show ?thesis
    by (simp only: float_constant_def d double_to_float_def c_float.case)
qed

lemma double_to_float_12: "double_to_float (Finite 12) = Finite 12"
proof -
  have "ieee_round 24 (-126) 127 12 = Finite 12"
    by (rule ieee_round_pos [where e = 3 and n = 12582912, THEN trans]) simp_all
  then show ?thesis by (simp only: double_to_float_def c_float.case)
qed

lemma double_constant_0_0004:
  "double_constant 0.0004 = Finite (7378697629483821 / 2 ^ 64)"
  unfolding double_constant_def
  by (rule ieee_round_pos [where e = "-12" and n = 7378697629483821, THEN trans]) simp_all

lemma double_to_float_0_0004:
  "double_to_float (double_constant 0.0004) = Finite (13743895 / 2 ^ 35)"
proof -
  have "ieee_round 24 (-126) 127 (7378697629483821 / 2 ^ 64) = Finite (13743895 / 2 ^ 35)"
    by (rule ieee_round_pos [where e = "-12" and n = 13743895, THEN trans]) simp_all
  then show ?thesis by (simp only: double_constant_0_0004 double_to_float_def c_float.case)
qed

lemma double_constant_below_min:
  "double_constant 0.000499999999 = Finite (288230375575251 / 2 ^ 59)"
  unfolding double_constant_def
  by (rule ieee_round_pos [where e = "-11" and n = 4611686009204016, THEN trans]) simp_all

lemma double_to_float_below_min:
  "double_to_float (double_constant 0.000499999999) = Finite (8589935 / 2 ^ 34)"
proof -
  have "ieee_round 24 (-126) 127 (288230375575251 / 2 ^ 59) = Finite (8589935 / 2 ^ 34)"
    by (rule ieee_round_pos [where e = "-11" and n = 8589935, THEN trans]) simp_all
  then show ?thesis by (simp only: double_constant_below_min double_to_float_def c_float.case)
qed

lemma double_constant_above_max:
  "double_constant 12.0000004 = Finite (6755399666235725 / 2 ^ 49)"
  unfolding double_constant_def
  by (rule ieee_round_pos [where e = 3 and n = 6755399666235725, THEN trans]) simp_all

lemma double_to_float_above_max:
  "double_to_float (double_constant 12.0000004) = Finite 12"
proof -
  have "ieee_round 24 (-126) 127 (6755399666235725 / 2 ^ 49) = Finite 12"
    by (rule ieee_round_pos [where e = 3 and n = 12582912, THEN trans]) simp_all
  then show ?thesis by (simp only: double_constant_above_max double_to_float_def c_float.case)
qed

lemma double_to_float_0_0005:
  "double_to_float (double_constant 0.0005) = Finite (8589935 / 2 ^ 34)"
  using float_constant_0_0005 by (simp only: float_constant_def)

lemma rounded_constants:
  "float_constant (1 / 2000) = Finite (8589935 / 2 ^ 34)"
  "float_constant 12 = Finite 12"
  "double_to_float (double_constant (1 / 2000)) = Finite (8589935 / 2 ^ 34)"
  "double_to_float (double_constant (1 / 2500)) = Finite (13743895 / 2 ^ 35)"
  "double_to_float (double_constant (499999999 / 1000000000000)) = Finite (8589935 / 2 ^ 34)"
  "double_constant (499999999 / 1000000000000) = Finite (288230375575251 / 2 ^ 59)"
  "double_to_float (double_constant (30000001 / 2500000)) = Finite 12"
  "double_constant (30000001 / 2500000) = Finite (6755399666235725 / 2 ^ 49)"
  using float_constant_0_0005 float_constant_12 double_to_float_0_0005 double_to_float_0_0004
    double_to_float_below_min double_constant_below_min double_to_float_above_max
    double_constant_above_max
  by simp_all

lemma nplc_entry_keithley:
  "nplc_entry (nplcopts model_keithley_dmm6500) SR_MQ_VOLTAGE {SR_MQFLAG_DC}
     = Some (nplcopt SR_MQ_VOLTAGE {SR_MQFLAG_DC} (float_constant 0.0005) (float_constant 12.0))"
  "nplc_entry (nplcopts model_keithley_dmm6500) SR_MQ_VOLTAGE {SR_MQFLAG_AC} = None"
  by (simp_all add: nplc_entry_def model_keithley_dmm6500_tables
      nplcopts_keithley_dmm6500_def nplcopt_def)

lemma nplc_bounds_keithley:
  "nplc_min (nplcopt SR_MQ_VOLTAGE {SR_MQFLAG_DC} (float_constant 0.0005) (float_constant 12.0))
     = Finite (8589935 / 2 ^ 34)"
  "nplc_max (nplcopt SR_MQ_VOLTAGE {SR_MQFLAG_DC} (float_constant 0.0005) (float_constant 12.0))
     = Finite 12"
  by (simp_all only: nplcopt_def scpi_dmm_nplcopts.simps float_constant_0_0005 float_constant_12)

text \<open>
  C7, as the code has it. Let the device report the quantity \<open>(q, f)\<close>, and let \<open>v\<close> be
  the requested \<open>double\<close>. \<open>config_set\<close> narrows \<open>v\<close> to a \<open>float\<close> before it looks at
  the bounds, which are \<open>float\<close> values themselves. Provided the device accepts the write,
  setting NPLC to \<open>v\<close> succeeds if and only if the model's NPLC table has an entry for
  \<open>(q, f)\<close> and the narrowed \<open>v\<close> lies between the minimum and the maximum of that
  entry, bounds included. With an entry and the narrowed \<open>v\<close> outside the bounds the
  answer is \<open>SR_ERR_DATA\<close>, and without an entry it is \<open>SR_ERR_NA\<close>; there is no entry
  exactly when the pair occurs nowhere in the table.
\<close>

theorem config_set_nplc_bounds:
  assumes "scpi_dmm_get_mq env = (SR_OK, q, f)"
  shows "(scpi_dmm_set_nplc env q f (double_to_float v) = SR_OK \<longrightarrow>
           (dmm_config_set_nplc env devc v = SR_OK \<longleftrightarrow>
              (\<exists>e. nplc_entry (nplcopts (devc_model devc)) q f = Some e
                   \<and> c_float_le (nplc_min e) (double_to_float v)
                   \<and> c_float_le (double_to_float v) (nplc_max e))))
    \<and> (\<forall>e. nplc_entry (nplcopts (devc_model devc)) q f = Some e
            \<and> \<not> (c_float_le (nplc_min e) (double_to_float v)
                  \<and> c_float_le (double_to_float v) (nplc_max e))
          \<longrightarrow> dmm_config_set_nplc env devc v = SR_ERR_DATA)
    \<and> (nplc_entry (nplcopts (devc_model devc)) q f = None
          \<longrightarrow> dmm_config_set_nplc env devc v = SR_ERR_NA)
    \<and> (nplc_entry (nplcopts (devc_model devc)) q f = None
          \<longleftrightarrow> (q, f) \<notin> set (map (\<lambda>e. (nplc_mq e, nplc_mqflag e))
                                (nplcopts (devc_model devc))))"
proof -
  have "nplc_entry (nplcopts (devc_model devc)) q f = None
          \<longleftrightarrow> (q, f) \<notin> set (map (\<lambda>e. (nplc_mq e, nplc_mqflag e))
                                (nplcopts (devc_model devc)))"
    by (rule nplc_entry_None)
  moreover from assms
  have "dmm_config_set_nplc env devc v =
          (case nplc_entry (nplcopts (devc_model devc)) q f of
             Some e \<Rightarrow>
               if c_float_le (nplc_min e) (double_to_float v)
                  \<and> c_float_le (double_to_float v) (nplc_max e)
               then scpi_dmm_set_nplc env q f (double_to_float v) else SR_ERR_DATA
           | None \<Rightarrow> SR_ERR_NA)"
    by (simp add: dmm_config_set_nplc_def nplc_entry_def Let_def)
  ultimately show ?thesis
    by (auto split: option.splits)
qed

text \<open>
  The DMM6500 measuring DC voltage; the stored bounds are the floats 8589935 / 2^34 (the
  one nearest to 0.0005) and 12. The requests 0.0005 and 12 are accepted, the request
  0.0004, which is 0.0001 below the minimum, is a data error. Measuring AC voltage, which
  the NPLC table does not list, the answer is "not applicable".
\<close>

theorem config_set_nplc_bounds_witness:
  "scpi_dmm_get_mq (example_dmm_env SR_MQ_VOLTAGE {SR_MQFLAG_DC} None None)
     = (SR_OK, SR_MQ_VOLTAGE, {SR_MQFLAG_DC})
   \<and> dmm_config_set_nplc (example_dmm_env SR_MQ_VOLTAGE {SR_MQFLAG_DC} None None)
        (example_dmm_devc model_keithley_dmm6500) (double_constant 0.0005) = SR_OK
   \<and> dmm_config_set_nplc (example_dmm_env SR_MQ_VOLTAGE {SR_MQFLAG_DC} None None)
        (example_dmm_devc model_keithley_dmm6500) (Finite 12) = SR_OK
   \<and> dmm_config_set_nplc (example_dmm_env SR_MQ_VOLTAGE {SR_MQFLAG_DC} None None)
        (example_dmm_devc model_keithley_dmm6500) (double_constant 0.0004) = SR_ERR_DATA
   \<and> dmm_config_set_nplc (example_dmm_env SR_MQ_VOLTAGE {SR_MQFLAG_AC} None None)
        (example_dmm_devc model_keithley_dmm6500) (Finite 1) = SR_ERR_NA"
proof -
  let ?dc = "example_dmm_env SR_MQ_VOLTAGE {SR_MQFLAG_DC} None None"
  let ?ac = "example_dmm_env SR_MQ_VOLTAGE {SR_MQFLAG_AC} None None"
  let ?devc = "example_dmm_devc model_keithley_dmm6500"
  have dc: "scpi_dmm_get_mq ?dc = (SR_OK, SR_MQ_VOLTAGE, {SR_MQFLAG_DC})"
    and ac: "scpi_dmm_get_mq ?ac = (SR_OK, SR_MQ_VOLTAGE, {SR_MQFLAG_AC})"
    and ok: "\<And>v. scpi_dmm_set_nplc ?dc SR_MQ_VOLTAGE {SR_MQFLAG_DC} v = SR_OK"
    and m: "devc_model ?devc = model_keithley_dmm6500"
    by (simp_all add: example_dmm_env_def example_dmm_devc_def)
  note e = nplc_entry_keithley nplc_bounds_keithley rounded_constants nplcopt_def
  from config_set_nplc_bounds [OF dc, of "double_constant 0.0005" ?devc]
  have a: "dmm_config_set_nplc ?dc ?devc (double_constant 0.0005) = SR_OK"
    by (simp add: ok m e double_to_float_0_0005)
  from config_set_nplc_bounds [OF dc, of "Finite 12" ?devc]
  have b: "dmm_config_set_nplc ?dc ?devc (Finite 12) = SR_OK"
    by (simp add: ok m e double_to_float_12)
  from config_set_nplc_bounds [OF dc, of "double_constant 0.0004" ?devc]
  have c: "dmm_config_set_nplc ?dc ?devc (double_constant 0.0004) = SR_ERR_DATA"
    by (simp add: ok m e double_to_float_0_0004)
  from config_set_nplc_bounds [OF ac, of "Finite 1" ?devc]
  have d: "dmm_config_set_nplc ?ac ?devc (Finite 1) = SR_ERR_NA"
    by (simp add: m e)
  from dc a b c d show ?thesis by simp
qed

text \<open>
  The bounds do not hold of the requested value itself. The request 0.000499999999, the
  double 288230375575251 / 2^59, is below the stored minimum and below 0.0005, and
  narrows to the minimum: setting it returns \<open>SR_OK\<close>. So does the request
  12.0000004, the double 6755399666235725 / 2^49, which is above the maximum and narrows
  to 12.
\<close>

theorem config_set_nplc_counterexample:
  "double_constant 0.000499999999 = Finite (288230375575251 / 2 ^ 59)
   \<and> double_constant 12.0000004 = Finite (6755399666235725 / 2 ^ 49)
   \<and> nplc_entry (nplcopts (devc_model (example_dmm_devc model_keithley_dmm6500)))
        SR_MQ_VOLTAGE {SR_MQFLAG_DC}
       = Some (nplcopt SR_MQ_VOLTAGE {SR_MQFLAG_DC} (float_constant 0.0005) (float_constant 12.0))
   \<and> float_constant 0.0005 = Finite (8589935 / 2 ^ 34)
   \<and> float_constant 12.0 = Finite 12
   \<and> \<not> c_float_le (float_constant 0.0005) (double_constant 0.000499999999)
   \<and> \<not> c_float_le (Finite 0.0005) (double_constant 0.000499999999)
   \<and> \<not> c_float_le (double_constant 12.0000004) (float_constant 12.0)
   \<and> dmm_config_set_nplc (example_dmm_env SR_MQ_VOLTAGE {SR_MQFLAG_DC} None None)
        (example_dmm_devc model_keithley_dmm6500) (double_constant 0.000499999999) = SR_OK
   \<and> dmm_config_set_nplc (example_dmm_env SR_MQ_VOLTAGE {SR_MQFLAG_DC} None None)
        (example_dmm_devc model_keithley_dmm6500) (double_constant 12.0000004) = SR_OK"
proof -
  have m: "devc_model (example_dmm_devc model_keithley_dmm6500) = model_keithley_dmm6500"
    by (simp add: example_dmm_devc_def)
  have r: "dmm_config_set_nplc (example_dmm_env SR_MQ_VOLTAGE {SR_MQFLAG_DC} None None)
        (example_dmm_devc model_keithley_dmm6500) (double_constant 0.000499999999) = SR_OK"
    by (simp add: dmm_config_set_nplc_def example_dmm_env_def m
        nplc_entry_keithley(1) [unfolded nplc_entry_def] nplcopt_def rounded_constants(1,2,5)
        Let_def)
  have s: "dmm_config_set_nplc (example_dmm_env SR_MQ_VOLTAGE {SR_MQFLAG_DC} None None)
        (example_dmm_devc model_keithley_dmm6500) (double_constant 12.0000004) = SR_OK"
    by (simp add: dmm_config_set_nplc_def example_dmm_env_def m
        nplc_entry_keithley(1) [unfolded nplc_entry_def] nplcopt_def rounded_constants(1,2,7)
        Let_def)
  from r s show ?thesis
    by (simp add: m nplc_entry_keithley rounded_constants)
qed

subsection \<open>Commands that a vendor's table does not have\<close>

text \<open>
  C8. When the command set has no text for \<open>DMM_CMD_STOP_ACQ\<close>, or an empty one,
  \<open>dev_acquisition_stop\<close> returns \<open>SR_OK\<close> and has sent nothing over the connection. When
  it has none for \<open>DMM_CMD_SETUP_LOCAL\<close>, \<open>dev_close\<close> of an active device sends nothing
  and returns what closing the connection returns, and \<open>probe_device\<close> of a device that
  identifies as a model of the table yields a device instance and has sent nothing. A code
  that occurs nowhere in a table has no text.
\<close>

theorem absent_command_skipped:
  "(conn sdi = Some scpi
      \<and> \<not> command_present (sr_scpi_cmd_get (devc_cmdset (dmm_priv sdi)) DMM_CMD_STOP_ACQ)
     \<longrightarrow> (\<exists>sdi'. dmm_dev_acquisition_stop sdi = Some (SR_OK, sdi') \<and> conn sdi' = Some scpi))
   \<and> (conn sdi = Some scpi \<and> \<not> status sdi \<le> inactive
      \<and> \<not> command_present (sr_scpi_cmd_get (devc_cmdset (dmm_priv sdi)) DMM_CMD_SETUP_LOCAL)
     \<longrightarrow> dmm_dev_close env inactive sdi = (sr_scpi_close env, sdi))
   \<and> (fst (sr_scpi_get_hw_id env) = SR_OK
      \<and> is_compatible (sr_vendor_alias env (manufacturer (snd (sr_scpi_get_hw_id env))))
           (hw_model (snd (sr_scpi_get_hw_id env))) = Some entry
      \<and> \<not> command_present (sr_scpi_cmd_get (cmdset entry) DMM_CMD_SETUP_LOCAL)
     \<longrightarrow> fst (probe_device env scpi0) \<noteq> None
         \<and> sent (snd (probe_device env scpi0)) = sent scpi0)
   \<and> (\<forall>cmdtable command. command \<notin> fst ` set cmdtable
         \<longrightarrow> \<not> command_present (sr_scpi_cmd_get cmdtable command))"
  by (auto simp: dmm_dev_acquisition_stop_def dmm_dev_close_def probe_device_def send_absent
      cmd_get_omitted command_present_def Let_def split: prod.splits)

text \<open>
  The OWON table has no stop command and the Agilent table no "local" command: stopping
  the OWON meter, closing the Agilent meter and probing it send nothing.
\<close>

theorem absent_command_skipped_witness:
  "conn (example_dmm_sdi model_owon_xdm2041) = Some example_scpi
   \<and> DMM_CMD_STOP_ACQ \<notin> fst ` set cmdset_owon
   \<and> (\<exists>sdi'. dmm_dev_acquisition_stop (example_dmm_sdi model_owon_xdm2041) = Some (SR_OK, sdi')
             \<and> conn sdi' = Some example_scpi)
   \<and> DMM_CMD_SETUP_LOCAL \<notin> fst ` set cmdset_agilent
   \<and> dmm_dev_close (example_dmm_env SR_MQ_VOLTAGE {SR_MQFLAG_DC} None None) 10002
        (example_dmm_sdi model_agilent_34405a)
       = (SR_OK, example_dmm_sdi model_agilent_34405a)
   \<and> fst (probe_device (example_dmm_env SR_MQ_VOLTAGE {SR_MQFLAG_DC} None None) example_scpi)
       \<noteq> None
   \<and> sent (snd (probe_device (example_dmm_env SR_MQ_VOLTAGE {SR_MQFLAG_DC} None None)
                  example_scpi)) = []"
proof -
  let ?env = "example_dmm_env SR_MQ_VOLTAGE {SR_MQFLAG_DC} None None"
  have stop_omitted: "DMM_CMD_STOP_ACQ \<notin> fst ` set cmdset_owon"
    and local_omitted: "DMM_CMD_SETUP_LOCAL \<notin> fst ` set cmdset_agilent"
    by (simp_all add: cmdset_owon_def cmdset_agilent_def)
  have c1: "conn (example_dmm_sdi model_owon_xdm2041) = Some example_scpi"
    and c2: "conn (example_dmm_sdi model_agilent_34405a) = Some example_scpi"
    and s2: "\<not> status (example_dmm_sdi model_agilent_34405a) \<le> 10002"
    and t1: "devc_cmdset (dmm_priv (example_dmm_sdi model_owon_xdm2041)) = cmdset_owon"
    and t2: "devc_cmdset (dmm_priv (example_dmm_sdi model_agilent_34405a)) = cmdset_agilent"
    by (simp_all add: example_dmm_sdi_def example_dmm_devc_def model_owon_xdm2041_tables
        model_agilent_34405a_tables)
  have id: "fst (sr_scpi_get_hw_id ?env) = SR_OK"
    and cl: "sr_scpi_close ?env = SR_OK"
    and e0: "sent example_scpi = []"
    by (simp_all add: example_dmm_env_def example_scpi_def)
  have compat: "is_compatible (sr_vendor_alias ?env (manufacturer (snd (sr_scpi_get_hw_id ?env))))
                  (hw_model (snd (sr_scpi_get_hw_id ?env))) = Some model_agilent_34405a"
    by (simp add: example_dmm_env_def is_compatible_def model_agilent_34405a_def models_def
        dmm_model_def)
  note absent = absent_command_skipped [THEN conjunct2, THEN conjunct2, THEN conjunct2,
      rule_format]
  have p1: "\<not> command_present (sr_scpi_cmd_get cmdset_owon DMM_CMD_STOP_ACQ)"
    using stop_omitted by (rule absent)
  have p2: "\<not> command_present (sr_scpi_cmd_get cmdset_agilent DMM_CMD_SETUP_LOCAL)"
    using local_omitted by (rule absent)
  from absent_command_skipped
         [of "example_dmm_sdi model_owon_xdm2041" example_scpi 0 ?env model_agilent_34405a
             example_scpi]
       c1 p1 t1
  have stop: "\<exists>sdi'. dmm_dev_acquisition_stop (example_dmm_sdi model_owon_xdm2041)
                       = Some (SR_OK, sdi') \<and> conn sdi' = Some example_scpi"
    by simp
  from absent_command_skipped
         [of "example_dmm_sdi model_agilent_34405a" example_scpi 10002 ?env
             model_agilent_34405a example_scpi]
       c2 s2 p2 t2 id compat cl e0
  have close_probe:
    "dmm_dev_close ?env 10002 (example_dmm_sdi model_agilent_34405a)
       = (SR_OK, example_dmm_sdi model_agilent_34405a)
     \<and> fst (probe_device ?env example_scpi) \<noteq> None
     \<and> sent (snd (probe_device ?env example_scpi)) = []"
    by (simp add: model_agilent_34405a_tables)
  from c1 stop_omitted local_omitted stop close_probe show ?thesis by simp
qed

text \<open>
  Where the table has the command, it is sent: stopping a Keithley-branded 34401A, whose
  table is \<open>cmdset_hp\<close>, sends \<open>ABORT\<close> and returns \<open>SR_OK\<close>.
\<close>

lemma present_command_sent:
  "dmm_dev_acquisition_stop (example_dmm_sdi (models ! 7))
     = Some (SR_OK,
             (example_dmm_sdi (models ! 7))
               \<lparr>conn := Some (example_scpi\<lparr>sent := [''ABORT'']\<rparr>),
                source_registered := False,
                feed := [SR_DF_END]\<rparr>)"
  by (simp add: dmm_dev_acquisition_stop_def example_dmm_sdi_def example_dmm_devc_def
      example_scpi_def models_def dmm_model_def cmdset_hp_def send_command_if_present_def)

end
